theory Spec2Isabelle
  imports Main "HOL-Library.Char_ord" "HOL-Library.List_Lexorder"
begin

section \<open>Data model of the page tree\<close>

text \<open>
  The Page schema of \<^verbatim>\<open>server/models/page.ts\<close>. Object ids are natural numbers. A
  field that the code compares with \<^verbatim>\<open>null\<close> or tests for truthiness is an option:
  \<^verbatim>\<open>parent\<close> (default null), \<^verbatim>\<open>grant\<close> (legacy documents carry no grant) and
  \<^verbatim>\<open>isEmpty\<close> (legacy documents carry none, the queries say "for v4 compatibility").
\<close>

type_synonym object_id = nat

definition GRANT_PUBLIC :: nat where "GRANT_PUBLIC = 1"
definition GRANT_RESTRICTED :: nat where "GRANT_RESTRICTED = 2"
definition GRANT_SPECIFIED :: nat where "GRANT_SPECIFIED = 3"
definition GRANT_OWNER :: nat where "GRANT_OWNER = 4"
definition GRANT_USER_GROUP :: nat where "GRANT_USER_GROUP = 5"

definition STATUS_PUBLISHED :: string where "STATUS_PUBLISHED = ''published''"
definition STATUS_DELETED :: string where "STATUS_DELETED = ''deleted''"

record page =
  page_id :: object_id
  path :: string
  parent :: "object_id option"
  descendantCount :: int
  isEmpty :: "bool option"
  status :: string
  grant :: "nat option"
  grantedUsers :: "object_id list"
  grantedGroup :: "object_id option"
  creator :: "object_id option"
  lastUpdateUser :: "object_id option"
  revision :: "string option"
  deleteUser :: "object_id option"

record page_redirect =
  fromPath :: string
  toPath :: string

record page_operation =
  op_id :: object_id
  actionType :: string
  actionStage :: string
  op_page :: object_id
  op_fromPath :: string
  op_toPath :: "string option"

text \<open>
  The database: the three collections in their natural (insertion) order, and the
  next fresh object id.
\<close>

record db =
  pages :: "page list"
  redirects :: "page_redirect list"
  operations :: "page_operation list"
  next_id :: object_id

section \<open>Path utilities and regular expressions\<close>

text \<open>
  Modelled from the spec: \<^verbatim>\<open>isTopPage\<close> of \<^verbatim>\<open>@growi/core\<close> (not among the sources) is
  the test for the root path \<^verbatim>\<open>/\<close>.
\<close>

definition isTopPage :: "string \<Rightarrow> bool" where
  "isTopPage p = (p = ''/'')"

text \<open>
  \<^verbatim>\<open>path.dirname\<close> of Node.js (POSIX): the scan from the right for the last slash that
  follows a non-slash character. \<^verbatim>\<open>dirname_scan\<close> walks the characters after the
  first one from the right; it returns the index of that slash, if any.
\<close>

fun dirname_scan :: "string \<Rightarrow> nat \<Rightarrow> bool \<Rightarrow> nat option" where
  "dirname_scan p 0 matchedSlash = None"
| "dirname_scan p (Suc i) matchedSlash =
     (if i = 0 then None
      else if p ! i = CHR ''/'' then
        (if \<not> matchedSlash then Some i else dirname_scan p i matchedSlash)
      else dirname_scan p i False)"

definition dirname :: "string \<Rightarrow> string" where
  "dirname p =
     (if p = [] then ''.''
      else (let hasRoot = (hd p = CHR ''/'') in
        case dirname_scan p (length p) True of
          None \<Rightarrow> (if hasRoot then ''/'' else ''.'')
        | Some e \<Rightarrow> (if hasRoot \<and> e = 1 then ''//'' else take e p)))"

text \<open>
  Regular expressions. The code builds them from pattern text, so the model has the
  pattern syntax (a scanner over the characters of the pattern, with a stack of open
  groups) and a matcher. The syntax covers what the patterns of the sources use and
  what a page path can put into them: literal characters, \<^verbatim>\<open>.\<close>, a backslash before
  a punctuation character, character classes without ranges, groups, alternatives, the
  anchors and the quantifiers \<^verbatim>\<open>*\<close>, \<^verbatim>\<open>+\<close>, \<^verbatim>\<open>?\<close>. A pattern JavaScript refuses
  is \<^verbatim>\<open>SyntaxError\<close>; a pattern outside this fragment (a brace, a class escape, a
  range, a group modifier) is \<^verbatim>\<open>Unsupported\<close>.

  A match state is the rest of the input and whether the position is the start of the
  input. \<^verbatim>\<open>rx_run\<close> gives the states a match of the expression can end in; a starred
  expression repeats while each round consumes input. \<^verbatim>\<open>rx_test\<close> looks for a match
  at any start position, as \<^verbatim>\<open>RegExp.prototype.test\<close> does.
\<close>

datatype rx = REps | RChar char | RAny | RClass bool "char list" | RBol | REol
  | RSeq rx rx | RAlt rx rx | RStar rx | RPlus rx | ROpt rx

definition toUpperCase :: "char \<Rightarrow> char" where
  "toUpperCase c =
     (let n = (of_char c :: nat) in if 97 \<le> n \<and> n \<le> 122 then char_of (n - 32) else c)"

definition char_eq :: "bool \<Rightarrow> char \<Rightarrow> char \<Rightarrow> bool" where
  "char_eq ignoreCase x c = (if ignoreCase then toUpperCase x = toUpperCase c else x = c)"

definition lineTerminator :: "char \<Rightarrow> bool" where
  "lineTerminator c = (c = CHR 0x0A \<or> c = CHR 0x0D)"

type_synonym mstate = "bool \<times> string"

fun star_iter :: "nat \<Rightarrow> (mstate \<Rightarrow> mstate list) \<Rightarrow> mstate \<Rightarrow> mstate list" where
  "star_iter 0 f st = [st]"
| "star_iter (Suc n) f st =
     st # concat (map (star_iter n f) (filter (\<lambda>st'. length (snd st') < length (snd st)) (f st)))"

fun rx_run :: "bool \<Rightarrow> rx \<Rightarrow> mstate \<Rightarrow> mstate list" where
  "rx_run ic REps st = [st]"
| "rx_run ic (RChar c) st =
     (case snd st of [] \<Rightarrow> [] | x # xs \<Rightarrow> if char_eq ic x c then [(False, xs)] else [])"
| "rx_run ic RAny st =
     (case snd st of [] \<Rightarrow> [] | x # xs \<Rightarrow> if lineTerminator x then [] else [(False, xs)])"
| "rx_run ic (RClass neg cs) st =
     (case snd st of [] \<Rightarrow> []
      | x # xs \<Rightarrow> if list_ex (char_eq ic x) cs \<noteq> neg then [(False, xs)] else [])"
| "rx_run ic RBol st = (if fst st then [st] else [])"
| "rx_run ic REol st = (if snd st = [] then [st] else [])"
| "rx_run ic (RSeq a b) st = concat (map (rx_run ic b) (rx_run ic a st))"
| "rx_run ic (RAlt a b) st = rx_run ic a st @ rx_run ic b st"
| "rx_run ic (RStar a) st = star_iter (length (snd st)) (rx_run ic a) st"
| "rx_run ic (RPlus a) st =
     concat (map (\<lambda>st'. star_iter (length (snd st')) (rx_run ic a) st') (rx_run ic a st))"
| "rx_run ic (ROpt a) st = st # rx_run ic a st"

definition rx_test :: "bool \<Rightarrow> rx \<Rightarrow> string \<Rightarrow> bool" where
  "rx_test ic r s = list_ex (\<lambda>i. rx_run ic r (i = 0, drop i s) \<noteq> []) [0..<Suc (length s)]"

record pframe =
  alts :: "rx list"
  terms :: "rx list"

datatype qmark = QNone | QGroupOpen | QAtom | QQuant

datatype pmode = PNormal | PEscape | PClassOpen | PClass bool "char list"

record pstate =
  outer :: "pframe list"
  cur :: pframe
  quant :: qmark
  pmode :: pmode

datatype regexp = RegExp rx | SyntaxError | Unsupported

definition seq_of :: "rx list \<Rightarrow> rx" where
  "seq_of ts = foldl (\<lambda>acc t. RSeq t acc) REps ts"

definition alt_of :: "pframe \<Rightarrow> rx" where
  "alt_of f = foldl (\<lambda>acc a. RAlt a acc) (seq_of (terms f)) (alts f)"

definition push_atom :: "rx \<Rightarrow> pstate \<Rightarrow> pstate" where
  "push_atom a st = st\<lparr>cur := (cur st)\<lparr>terms := a # terms (cur st)\<rparr>, quant := QAtom, pmode := PNormal\<rparr>"

definition push_assertion :: "rx \<Rightarrow> pstate \<Rightarrow> pstate" where
  "push_assertion a st = st\<lparr>cur := (cur st)\<lparr>terms := a # terms (cur st)\<rparr>, quant := QNone\<rparr>"

definition quantify :: "(rx \<Rightarrow> rx) \<Rightarrow> pstate \<Rightarrow> pstate" where
  "quantify q st =
     (case terms (cur st) of
        [] \<Rightarrow> st
      | t # ts \<Rightarrow> st\<lparr>cur := (cur st)\<lparr>terms := q t # ts\<rparr>, quant := QQuant\<rparr>)"

definition alnum :: "char \<Rightarrow> bool" where
  "alnum c = (let n = (of_char c :: nat) in
     (48 \<le> n \<and> n \<le> 57) \<or> (65 \<le> n \<and> n \<le> 90) \<or> (97 \<le> n \<and> n \<le> 122))"

definition pstep_normal :: "pstate \<Rightarrow> char \<Rightarrow> regexp + pstate" where
  "pstep_normal st c =
     (if c = CHR 0x5C then Inr (st\<lparr>pmode := PEscape\<rparr>)
      else if c = CHR ''['' then Inr (st\<lparr>pmode := PClassOpen\<rparr>)
      else if c = CHR ''('' then
        Inr (st\<lparr>outer := cur st # outer st, cur := \<lparr>alts = [], terms = []\<rparr>, quant := QGroupOpen\<rparr>)
      else if c = CHR '')'' then
        (case outer st of
           [] \<Rightarrow> Inl SyntaxError
         | f # fs \<Rightarrow> Inr (st\<lparr>outer := fs, cur := f\<lparr>terms := alt_of (cur st) # terms f\<rparr>, quant := QAtom\<rparr>))
      else if c = CHR ''|'' then
        Inr (st\<lparr>cur := \<lparr>alts = seq_of (terms (cur st)) # alts (cur st), terms = []\<rparr>, quant := QNone\<rparr>)
      else if c = CHR ''*'' \<or> c = CHR ''+'' \<or> c = CHR ''?'' then
        (case quant st of
           QAtom \<Rightarrow> Inr (quantify (if c = CHR ''*'' then RStar else if c = CHR ''+'' then RPlus else ROpt) st)
         | QQuant \<Rightarrow> if c = CHR ''?'' then Inr (st\<lparr>quant := QNone\<rparr>) else Inl SyntaxError
         | QGroupOpen \<Rightarrow> if c = CHR ''?'' then Inl Unsupported else Inl SyntaxError
         | QNone \<Rightarrow> Inl SyntaxError)
      else if c = CHR ''{'' then Inl Unsupported
      else if c = CHR ''^'' then Inr (push_assertion RBol st)
      else if c = CHR ''$'' then Inr (push_assertion REol st)
      else if c = CHR ''.'' then Inr (push_atom RAny st)
      else Inr (push_atom (RChar c) st))"

definition pstep :: "pstate \<Rightarrow> char \<Rightarrow> regexp + pstate" where
  "pstep st c =
     (case pmode st of
        PNormal \<Rightarrow> pstep_normal st c
      | PEscape \<Rightarrow> if alnum c then Inl Unsupported else Inr (push_atom (RChar c) st)
      | PClassOpen \<Rightarrow>
          if c = CHR ''^'' then Inr (st\<lparr>pmode := PClass True []\<rparr>)
          else if c = CHR '']'' then Inr (push_atom (RClass False []) st)
          else if c = CHR 0x5C \<or> c = CHR ''-'' then Inl Unsupported
          else Inr (st\<lparr>pmode := PClass False [c]\<rparr>)
      | PClass neg ms \<Rightarrow>
          if c = CHR '']'' then Inr (push_atom (RClass neg ms) st)
          else if c = CHR 0x5C \<or> c = CHR ''-'' then Inl Unsupported
          else Inr (st\<lparr>pmode := PClass neg (ms @ [c])\<rparr>))"

fun pscan :: "pstate \<Rightarrow> string \<Rightarrow> regexp" where
  "pscan st [] =
     (case pmode st of
        PNormal \<Rightarrow> (case outer st of [] \<Rightarrow> RegExp (alt_of (cur st)) | _ # _ \<Rightarrow> SyntaxError)
      | _ \<Rightarrow> SyntaxError)"
| "pscan st (c # cs) = (case pstep st c of Inl r \<Rightarrow> r | Inr st' \<Rightarrow> pscan st' cs)"

definition new_RegExp :: "string \<Rightarrow> regexp" where
  "new_RegExp pattern =
     pscan \<lparr>outer = [], cur = \<lparr>alts = [], terms = []\<rparr>, quant = QNone, pmode = PNormal\<rparr> pattern"

definition test :: "bool \<Rightarrow> regexp \<Rightarrow> string \<Rightarrow> bool option" where
  "test ic re s = (case re of RegExp r \<Rightarrow> Some (rx_test ic r s) | _ \<Rightarrow> None)"

text \<open>
  \<^verbatim>\<open>generateChildrenRegExp\<close>: the regular expression literal for the top page, and the
  template with the path interpolated as it is otherwise.
\<close>

definition generateChildrenRegExp :: "string \<Rightarrow> regexp" where
  "generateChildrenRegExp p =
     (if isTopPage p then new_RegExp (''^'' @ [CHR 0x5C] @ ''/[^/]+$'')
      else new_RegExp (''^'' @ p @ ''('' @ [CHR 0x5C] @ ''/[^/]+)'' @ [CHR 0x5C] @ ''/?$''))"

text \<open>
  C9 (code as written). The path is interpolated into the pattern without escaping, so
  its characters are read as pattern syntax. For the parent \<^verbatim>\<open>/a.b\<close> the matcher
  accepts \<^verbatim>\<open>/aXb/c\<close>, a path outside the subtree of \<^verbatim>\<open>/a.b\<close>; for the parent
  \<^verbatim>\<open>/a+b\<close> it rejects the child \<^verbatim>\<open>/a+b/c\<close>; for the parent \<^verbatim>\<open>/a(b\<close> the pattern
  does not compile. On a path without such characters it behaves as intended:
  \<^verbatim>\<open>/a\<close> accepts \<^verbatim>\<open>/a/b\<close> and rejects \<^verbatim>\<open>/a\<close>, \<^verbatim>\<open>/a/b/c\<close> and \<^verbatim>\<open>/x/b\<close>.
\<close>

theorem generateChildrenRegExp_unescaped:
  "test False (generateChildrenRegExp ''/a.b'') ''/aXb/c'' = Some True
   \<and> test False (generateChildrenRegExp ''/a+b'') ''/a+b/c'' = Some False
   \<and> generateChildrenRegExp ''/a(b'' = SyntaxError
   \<and> test False (generateChildrenRegExp ''/a'') ''/a/b'' = Some True
   \<and> test False (generateChildrenRegExp ''/a'') ''/a'' = Some False
   \<and> test False (generateChildrenRegExp ''/a'') ''/a/b/c'' = Some False
   \<and> test False (generateChildrenRegExp ''/a'') ''/x/b'' = Some False"
  by code_simp

section \<open>Effects: database state, exceptions, collaborators\<close>

text \<open>
  Every error the modelled code throws is a constructor, named after its message.
  \<^verbatim>\<open>TypeError\<close> is the JavaScript error of reading a property of \<^verbatim>\<open>undefined\<close> or
  \<^verbatim>\<open>null\<close>; \<^verbatim>\<open>External\<close> is an error thrown by a collaborator.
\<close>

datatype error =
    CrowiIsNotSetup
  | CannotOperateRightNow
  | CannotCreateNewPageToExistedPath
  | GrantIsNotAssignable
  | ParentMustNotBeNull
  | ParentToUpdateDoesNotExist
  | ParentNotFound
  | OriginalParentNotFound
  | TargetNotFound
  | PageAlreadyExistsAt
  | ForbiddenToRenameTopPage
  | ForbiddenToDeleteTopPage
  | CannotMoveToThisPath
  | CannotFindOrDuplicateEmptyPage
  | PageNotFound
  | NotSupportDeletingTrashedPages
  | PageIsNotDeletable
  | MaximumNumberOfPages nat
  | MaximumNumberOfPageIds nat
  | PageOperationDocumentNotFound
  | FailedToMigrateSomePages
  | FailedToUpdateDescendantCount error
  | PageNotFoundAfterUpdatingDescendantCount
  | DuplicateKey
  | TypeError
  | External string

datatype 'a result = Returned 'a | Threw error

text \<open>
  An operation takes the database and gives its result and the database it leaves;
  \<^verbatim>\<open>None\<close> is an operation that does not return.
\<close>

type_synonym 'a io = "db \<Rightarrow> ('a result \<times> db) option"

definition io_return :: "'a \<Rightarrow> 'a io" where
  "io_return x = (\<lambda>s. Some (Returned x, s))"

definition io_throw :: "error \<Rightarrow> 'a io" where
  "io_throw e = (\<lambda>s. Some (Threw e, s))"

definition io_bind :: "'a io \<Rightarrow> ('a \<Rightarrow> 'b io) \<Rightarrow> 'b io" where
  "io_bind m f = (\<lambda>s. case m s of
       None \<Rightarrow> None
     | Some (Returned x, s') \<Rightarrow> f x s'
     | Some (Threw e, s') \<Rightarrow> Some (Threw e, s'))"

definition io_get :: "(db \<Rightarrow> 'a) \<Rightarrow> 'a io" where
  "io_get q = (\<lambda>s. Some (Returned (q s), s))"

definition io_modify :: "(db \<Rightarrow> db) \<Rightarrow> unit io" where
  "io_modify f = (\<lambda>s. Some (Returned (), f s))"

definition io_seq :: "unit io \<Rightarrow> 'b io \<Rightarrow> 'b io" where
  "io_seq m n = io_bind m (\<lambda>_. n)"

definition io_of_option :: "'a option \<Rightarrow> 'a io" where
  "io_of_option r = (\<lambda>s. case r of None \<Rightarrow> None | Some x \<Rightarrow> Some (Returned x, s))"

fun io_mapM :: "('a \<Rightarrow> unit io) \<Rightarrow> 'a list \<Rightarrow> unit io" where
  "io_mapM f [] = io_return ()"
| "io_mapM f (x # xs) = io_seq (f x) (io_mapM f xs)"

type_synonym user = object_id

record PageCreateOptions =
  opt_grant :: "nat option"
  opt_grantUserGroupId :: "object_id option"

text \<open>
  What Mongoose does with a key whose value is \<^verbatim>\<open>undefined\<close> in an update document
  depends on its version: it writes \<^verbatim>\<open>null\<close>, it drops the key, or the write fails.
\<close>

datatype undefined_policy = WritesNull | OmitsKey | RejectsUpdate

text \<open>
  The collaborators and library functions that are not among the sources are fields
  of the environment: the configuration flag, the page operation service, the XSS
  filter, the page grant service, the user group relation, and the helpers of
  \<^verbatim>\<open>@growi/core\<close> and of the obsolete page model. A collaborator that throws gives the
  message of its error (\<^verbatim>\<open>Inl\<close>).
\<close>

record env =
  servicesReady :: bool
  isV5Compatible :: bool
  canOperate :: "bool \<Rightarrow> string option \<Rightarrow> string option \<Rightarrow> db \<Rightarrow> bool"
  xss_process :: "string \<Rightarrow> string"
  isGrantNormalized ::
    "user \<Rightarrow> string \<Rightarrow> nat option \<Rightarrow> object_id list option \<Rightarrow> object_id option \<Rightarrow> bool
       \<Rightarrow> db \<Rightarrow> string + bool"
  separateNormalizableAndNotNormalizablePages ::
    "user \<Rightarrow> page list \<Rightarrow> db \<Rightarrow> string + (page list \<times> page list)"
  findAllUserGroupIdsRelatedToUser :: "user \<Rightarrow> object_id list"
  applyScope :: "user \<Rightarrow> nat option \<Rightarrow> object_id option \<Rightarrow> page \<Rightarrow> page"
  createV4 :: "string \<Rightarrow> string \<Rightarrow> user \<Rightarrow> PageCreateOptions \<Rightarrow> page io"
  updatePageV4 :: "page \<Rightarrow> string \<Rightarrow> string \<Rightarrow> user \<Rightarrow> PageCreateOptions \<Rightarrow> page io"
  getDeletedPageName :: "string \<Rightarrow> string"
  isTrashPage :: "string \<Rightarrow> bool"
  isMovablePage :: "string \<Rightarrow> bool"
  canMoveByPath :: "string \<Rightarrow> string \<Rightarrow> bool"
  omitDuplicateAreaPageFromPages :: "page list \<Rightarrow> page list"
  collectAncestorPaths :: "string \<Rightarrow> string list"
  addTrailingSlash :: "string \<Rightarrow> string"
  normalizePath :: "string \<Rightarrow> string"
  findByIdAndViewer :: "object_id \<Rightarrow> user option \<Rightarrow> db \<Rightarrow> page option"
  viewerCanEdit :: "user \<Rightarrow> page \<Rightarrow> bool"
  undefinedInUpdate :: undefined_policy

section \<open>Queries and writes on the page collection\<close>

definition new_Page :: "object_id \<Rightarrow> page" where
  "new_Page i = \<lparr>page_id = i, path = [], parent = None, descendantCount = 0,
     isEmpty = Some False, status = STATUS_PUBLISHED, grant = Some GRANT_PUBLIC,
     grantedUsers = [], grantedGroup = None, creator = None, lastUpdateUser = None,
     revision = None, deleteUser = None\<rparr>"

definition findById :: "db \<Rightarrow> object_id option \<Rightarrow> page option" where
  "findById s i = (case i of None \<Rightarrow> None | Some j \<Rightarrow> find (\<lambda>p. page_id p = j) (pages s))"

definition findOne :: "db \<Rightarrow> (page \<Rightarrow> bool) \<Rightarrow> page option" where
  "findOne s P = find P (pages s)"

definition find_pages :: "db \<Rightarrow> (page \<Rightarrow> bool) \<Rightarrow> page list" where
  "find_pages s P = filter P (pages s)"

definition page_exists :: "db \<Rightarrow> (page \<Rightarrow> bool) \<Rightarrow> bool" where
  "page_exists s P = list_ex P (pages s)"

definition count_pages :: "db \<Rightarrow> (page \<Rightarrow> bool) \<Rightarrow> nat" where
  "count_pages s P = length (filter P (pages s))"

definition updateMany :: "(page \<Rightarrow> bool) \<Rightarrow> (page \<Rightarrow> page) \<Rightarrow> db \<Rightarrow> db" where
  "updateMany P f s = s\<lparr>pages := map (\<lambda>p. if P p then f p else p) (pages s)\<rparr>"

fun update_first :: "(page \<Rightarrow> bool) \<Rightarrow> (page \<Rightarrow> page) \<Rightarrow> page list \<Rightarrow> page list" where
  "update_first P f [] = []"
| "update_first P f (p # ps) = (if P p then f p # ps else p # update_first P f ps)"

definition updateOne :: "(page \<Rightarrow> bool) \<Rightarrow> (page \<Rightarrow> page) \<Rightarrow> db \<Rightarrow> db" where
  "updateOne P f s = s\<lparr>pages := update_first P f (pages s)\<rparr>"

definition deleteMany :: "(page \<Rightarrow> bool) \<Rightarrow> db \<Rightarrow> db" where
  "deleteMany P s = s\<lparr>pages := filter (\<lambda>p. \<not> P p) (pages s)\<rparr>"

fun remove_first :: "('a \<Rightarrow> bool) \<Rightarrow> 'a list \<Rightarrow> 'a list" where
  "remove_first P [] = []"
| "remove_first P (p # ps) = (if P p then ps else p # remove_first P ps)"

definition deleteOne :: "(page \<Rightarrow> bool) \<Rightarrow> db \<Rightarrow> db" where
  "deleteOne P s = s\<lparr>pages := remove_first P (pages s)\<rparr>"

text \<open>
  \<^verbatim>\<open>save\<close> of a document: a document whose id is in the collection replaces the
  stored one, a new document is appended.
\<close>

definition save :: "page \<Rightarrow> db \<Rightarrow> db" where
  "save p s =
     (if list_ex (\<lambda>q. page_id q = page_id p) (pages s)
      then updateOne (\<lambda>q. page_id q = page_id p) (\<lambda>_. p) s
      else s\<lparr>pages := pages s @ [p]\<rparr>)"

definition fresh_id :: "object_id io" where
  "fresh_id = (\<lambda>s. Some (Returned (next_id s), s\<lparr>next_id := Suc (next_id s)\<rparr>))"

definition truthy :: "bool option \<Rightarrow> bool" where
  "truthy b = (b = Some True)"

section \<open>recountDescendantCount\<close>

text \<open>
  The numbers of the aggregation, and the number the function returns to JavaScript,
  are IEEE 754 doubles. The model holds an integer-valued number as an \<^verbatim>\<open>int\<close>.
  \<^verbatim>\<open>js_number n\<close> is the double nearest to the integer \<^verbatim>\<open>n\<close>: \<^verbatim>\<open>n\<close> itself up to
  \<^verbatim>\<open>2^53\<close> in magnitude, and above it the nearest multiple of the spacing of the doubles
  at that magnitude, a tie going to the even significand. A sum of two numbers is the
  rounded sum. The exponent range is not modelled: from \<^verbatim>\<open>2^1024\<close> on a double is
  infinite.
\<close>

function bit_length :: "int \<Rightarrow> nat" where
  "bit_length n = (if n \<le> 0 then 0 else Suc (bit_length (n div 2)))"
  by pat_completeness auto
termination
  by (relation "measure (\<lambda>n. nat n)") auto

definition js_number :: "int \<Rightarrow> int" where
  "js_number n =
     (if \<bar>n\<bar> \<le> 2 ^ 53 then n
      else (let m = \<bar>n\<bar>;
                ulp = 2 ^ (bit_length m - 53);
                q = m div ulp;
                r = m mod ulp;
                significand = (if 2 * r < ulp then q
                               else if 2 * r > ulp then q + 1
                               else if even q then q else q + 1)
            in sgn n * (significand * ulp)))"

definition js_add :: "int \<Rightarrow> int \<Rightarrow> int" where
  "js_add a b = js_number (a + b)"

text \<open>
  The aggregation pipeline of \<^verbatim>\<open>recountDescendantCount\<close>: \<^verbatim>\<open>$match\<close> on the parent,
  \<^verbatim>\<open>$group\<close> by \<^verbatim>\<open>$parent\<close> with the two sums, each accumulated from 0 in the order
  of the documents, \<^verbatim>\<open>$set\<close> of their sum; the function returns 0 when the pipeline
  gives no group and the first group's value otherwise.
\<close>

record recount_group =
  group_key :: "object_id option"
  sumOfDescendantCount :: int
  sumOfDocsCount :: int

definition docs_count_cond :: "page \<Rightarrow> int" where
  "docs_count_cond d = (if isEmpty d = Some True then 0 else 1)"

fun group_add :: "page \<Rightarrow> recount_group list \<Rightarrow> recount_group list" where
  "group_add d [] =
     [\<lparr>group_key = parent d, sumOfDescendantCount = js_add 0 (descendantCount d),
       sumOfDocsCount = js_add 0 (docs_count_cond d)\<rparr>]"
| "group_add d (g # gs) =
     (if group_key g = parent d
      then g\<lparr>sumOfDescendantCount := js_add (sumOfDescendantCount g) (descendantCount d),
             sumOfDocsCount := js_add (sumOfDocsCount g) (docs_count_cond d)\<rparr> # gs
      else g # group_add d gs)"

definition match_stage :: "object_id \<Rightarrow> page list \<Rightarrow> page list" where
  "match_stage pid docs = filter (\<lambda>d. parent d = Some pid) docs"

definition group_stage :: "page list \<Rightarrow> recount_group list" where
  "group_stage docs = foldl (\<lambda>gs d. group_add d gs) [] docs"

definition set_stage :: "recount_group list \<Rightarrow> int list" where
  "set_stage gs = map (\<lambda>g. js_add (sumOfDescendantCount g) (sumOfDocsCount g)) gs"

definition recountDescendantCount :: "db \<Rightarrow> object_id \<Rightarrow> int" where
  "recountDescendantCount s pid =
     (case set_stage (group_stage (match_stage pid (pages s))) of
        [] \<Rightarrow> 0
      | c # _ \<Rightarrow> c)"

text \<open>
  The safe range: a list of children whose counts, in magnitude, and whose number stay
  within \<^verbatim>\<open>2^53\<close> in total. There every sum of the pipeline is exact.
\<close>

definition safe_counts :: "page list \<Rightarrow> bool" where
  "safe_counts docs =
     (sum_list (map (\<lambda>d. \<bar>descendantCount d\<bar>) docs) + int (length docs) \<le> 2 ^ 53)"

lemma js_add_exact: "\<bar>a + b\<bar> \<le> 2 ^ 53 \<Longrightarrow> js_add a b = a + b"
  by (simp add: js_add_def js_number_def)

lemma sum_abs_nonneg: "0 \<le> sum_list (map (\<lambda>d. \<bar>descendantCount d\<bar>) docs)"
  by (induction docs) simp_all

lemma docs_count_cond_range: "0 \<le> docs_count_cond d \<and> docs_count_cond d \<le> 1"
  by (simp add: docs_count_cond_def)

lemma group_stage_same_key:
  assumes "\<forall>d \<in> set docs. parent d = k"
    and "\<bar>a\<bar> + sum_list (map (\<lambda>d. \<bar>descendantCount d\<bar>) docs) \<le> 2 ^ 53"
    and "0 \<le> b" "b + int (length docs) \<le> 2 ^ 53"
  shows "foldl (\<lambda>gs d. group_add d gs)
           [\<lparr>group_key = k, sumOfDescendantCount = a, sumOfDocsCount = b\<rparr>] docs
         = [\<lparr>group_key = k,
             sumOfDescendantCount = a + sum_list (map descendantCount docs),
             sumOfDocsCount = b + sum_list (map docs_count_cond docs)\<rparr>]"
  using assms
proof (induction docs arbitrary: a b)
  case Nil
  then show ?case by simp
next
  case (Cons d ds)
  have c: "0 \<le> docs_count_cond d" "docs_count_cond d \<le> 1"
    using docs_count_cond_range [of d] by simp_all
  have e1: "js_add a (descendantCount d) = a + descendantCount d"
  proof (rule js_add_exact)
    have "\<bar>a + descendantCount d\<bar> \<le> \<bar>a\<bar> + \<bar>descendantCount d\<bar>" by (rule abs_triangle_ineq)
    with Cons.prems(2) sum_abs_nonneg [of ds] show "\<bar>a + descendantCount d\<bar> \<le> 2 ^ 53" by simp
  qed
  have e2: "js_add b (docs_count_cond d) = b + docs_count_cond d"
    using Cons.prems(3,4) c by (intro js_add_exact) simp
  have "foldl (\<lambda>gs d. group_add d gs)
          [\<lparr>group_key = k, sumOfDescendantCount = a + descendantCount d,
            sumOfDocsCount = b + docs_count_cond d\<rparr>] ds
        = [\<lparr>group_key = k,
            sumOfDescendantCount = (a + descendantCount d) + sum_list (map descendantCount ds),
            sumOfDocsCount = (b + docs_count_cond d) + sum_list (map docs_count_cond ds)\<rparr>]"
  proof (rule Cons.IH)
    show "\<forall>d\<in>set ds. parent d = k" using Cons.prems(1) by simp
    have "\<bar>a + descendantCount d\<bar> \<le> \<bar>a\<bar> + \<bar>descendantCount d\<bar>" by (rule abs_triangle_ineq)
    with Cons.prems(2)
    show "\<bar>a + descendantCount d\<bar> + (\<Sum>d\<leftarrow>ds. \<bar>descendantCount d\<bar>) \<le> 2 ^ 53" by simp
    show "0 \<le> b + docs_count_cond d" using Cons.prems(3) c by simp
    show "b + docs_count_cond d + int (length ds) \<le> 2 ^ 53" using Cons.prems(4) c by simp
  qed
  with Cons.prems(1) e1 e2 show ?case by (simp add: add.assoc)
qed

lemma sum_docs_count_cond:
  "sum_list (map docs_count_cond docs)
   = int (length (filter (\<lambda>d. isEmpty d \<noteq> Some True) docs))"
  by (induction docs) (simp_all add: docs_count_cond_def)

lemma sum_list_abs: "\<bar>sum_list (map descendantCount docs)\<bar> \<le> sum_list (map (\<lambda>d. \<bar>descendantCount d\<bar>) docs)"
  by (induction docs) simp_all

lemma recount_of_children:
  assumes "\<forall>d \<in> set docs. parent d = Some pid" and safe: "safe_counts docs"
  shows "(case set_stage (group_stage docs) of [] \<Rightarrow> 0 | c # _ \<Rightarrow> c)
         = sum_list (map descendantCount docs)
           + int (length (filter (\<lambda>d. isEmpty d \<noteq> Some True) docs))"
proof (cases docs)
  case Nil
  then show ?thesis by (simp add: set_stage_def group_stage_def)
next
  case (Cons d ds)
  with assms have k: "parent d = Some pid" and rest: "\<forall>x \<in> set ds. parent x = Some pid"
    by simp_all
  have c: "0 \<le> docs_count_cond d" "docs_count_cond d \<le> 1"
    using docs_count_cond_range [of d] by simp_all
  have bound: "\<bar>descendantCount d\<bar> + sum_list (map (\<lambda>d. \<bar>descendantCount d\<bar>) ds)
                 + 1 + int (length ds) \<le> 2 ^ 53"
    using safe Cons by (simp add: safe_counts_def)
  have nn: "0 \<le> sum_list (map (\<lambda>d. \<bar>descendantCount d\<bar>) ds)"
    by (rule sum_abs_nonneg)
  have e1: "js_add 0 (descendantCount d) = descendantCount d"
    using bound nn by (intro js_add_exact [of 0, simplified]) simp
  have e2: "js_add 0 (docs_count_cond d) = docs_count_cond d"
    using c by (intro js_add_exact [of 0, simplified]) simp
  have start: "group_stage docs
        = foldl (\<lambda>gs d. group_add d gs)
            [\<lparr>group_key = Some pid, sumOfDescendantCount = descendantCount d,
              sumOfDocsCount = docs_count_cond d\<rparr>] ds"
    using Cons k e1 e2 by (simp add: group_stage_def)
  have groups: "group_stage docs
        = [\<lparr>group_key = Some pid,
            sumOfDescendantCount = descendantCount d + sum_list (map descendantCount ds),
            sumOfDocsCount = docs_count_cond d + sum_list (map docs_count_cond ds)\<rparr>]"
    unfolding start using bound nn c by (intro group_stage_same_key [OF rest]) simp_all
  have total: "\<bar>sum_list (map descendantCount docs) + sum_list (map docs_count_cond docs)\<bar>
               \<le> 2 ^ 53"
  proof -
    have "\<bar>sum_list (map descendantCount docs)\<bar>
            \<le> sum_list (map (\<lambda>d. \<bar>descendantCount d\<bar>) docs)"
      by (rule sum_list_abs)
    moreover have "0 \<le> sum_list (map docs_count_cond docs)"
      "sum_list (map docs_count_cond docs) \<le> int (length docs)"
      by (simp_all add: sum_docs_count_cond)
    ultimately show ?thesis using safe by (simp add: safe_counts_def)
  qed
  from groups Cons have "set_stage (group_stage docs)
       = [js_add (sum_list (map descendantCount docs)) (sum_list (map docs_count_cond docs))]"
    by (simp add: set_stage_def)
  with js_add_exact [OF total] sum_docs_count_cond [of docs] show ?thesis by simp
qed

text \<open>
  C6. When the counts of the immediate children of \<^verbatim>\<open>pageId\<close> are in the safe range,
  \<^verbatim>\<open>recountDescendantCount(pageId)\<close> is the sum of their \<^verbatim>\<open>descendantCount\<close> plus the
  number of them whose \<^verbatim>\<open>isEmpty\<close> is not true. It is 0 on a database that holds no
  child of \<^verbatim>\<open>pageId\<close>, and it reads the immediate children only: dropping every other
  document from the collection leaves the count as it is.
\<close>

theorem recountDescendantCount_children:
  "(safe_counts (filter (\<lambda>d. parent d = Some pid) (pages s)) \<longrightarrow>
      recountDescendantCount s pid
        = sum_list (map descendantCount (filter (\<lambda>d. parent d = Some pid) (pages s)))
          + int (length (filter (\<lambda>d. parent d = Some pid \<and> isEmpty d \<noteq> Some True) (pages s))))
   \<and> recountDescendantCount (s\<lparr>pages := filter (\<lambda>d. parent d \<noteq> Some pid) (pages s)\<rparr>) pid = 0
   \<and> recountDescendantCount (s\<lparr>pages := filter (\<lambda>d. parent d = Some pid) (pages s)\<rparr>) pid
       = recountDescendantCount s pid"
proof -
  have eq: "recountDescendantCount s pid
     = sum_list (map descendantCount (filter (\<lambda>d. parent d = Some pid) (pages s)))
       + int (length (filter (\<lambda>d. parent d = Some pid \<and> isEmpty d \<noteq> Some True) (pages s)))"
    if "safe_counts (filter (\<lambda>d. parent d = Some pid) (pages s))"
    using recount_of_children [of "match_stage pid (pages s)" pid] that
    by (simp add: recountDescendantCount_def match_stage_def conj_commute)
  have zero: "recountDescendantCount (s\<lparr>pages := filter (\<lambda>d. parent d \<noteq> Some pid) (pages s)\<rparr>) pid = 0"
    by (simp add: recountDescendantCount_def match_stage_def group_stage_def set_stage_def)
  have local: "recountDescendantCount (s\<lparr>pages := filter (\<lambda>d. parent d = Some pid) (pages s)\<rparr>) pid
       = recountDescendantCount s pid"
    by (simp add: recountDescendantCount_def match_stage_def)
  from eq zero local show ?thesis by blast
qed

text \<open>
  A page with two children: one that is not empty, with three descendants, and an empty
  one with none.
\<close>

definition family_db :: db where
  "family_db =
     \<lparr>pages = [new_Page 1,
               (new_Page 2)\<lparr>parent := Some 1, descendantCount := 3\<rparr>,
               (new_Page 3)\<lparr>parent := Some 1, isEmpty := Some True\<rparr>],
      redirects = [], operations = [], next_id = 4\<rparr>"

theorem recountDescendantCount_children_witness:
  "safe_counts (filter (\<lambda>d. parent d = Some 1) (pages family_db))
   \<and> recountDescendantCount family_db 1 = 4"
proof -
  have safe: "safe_counts (filter (\<lambda>d. parent d = Some 1) (pages family_db))"
    by (simp add: safe_counts_def family_db_def new_Page_def)
  have "sum_list (map descendantCount (filter (\<lambda>d. parent d = Some 1) (pages family_db)))
        + int (length (filter (\<lambda>d. parent d = Some 1 \<and> isEmpty d \<noteq> Some True)
                         (pages family_db))) = 4"
    by (simp add: family_db_def new_Page_def)
  with recountDescendantCount_children [of 1 family_db] safe show ?thesis by simp
qed

section \<open>removeLeafEmptyPagesRecursively\<close>

text \<open>
  The inner recursion \<^verbatim>\<open>generatePageIdsToRemove(childPage, page, pageIds)\<close> reads the
  collection and walks up the parent references. With the \<^verbatim>\<open>childPage\<close> absent the
  filter \<^verbatim>\<open>_id: { $ne: undefined }\<close> holds for every document.
\<close>

partial_function (option) generatePageIdsToRemove ::
  "db \<Rightarrow> page option \<Rightarrow> page \<Rightarrow> object_id list \<Rightarrow> object_id list option" where
  "generatePageIdsToRemove s childPage page pageIds =
     (if \<not> truthy (isEmpty page) then Some pageIds
      else if page_exists s (\<lambda>q. Some (page_id q) \<noteq> map_option page_id childPage
                                  \<and> parent q = Some (page_id page))
      then Some pageIds
      else (case findById s (parent page) of
              None \<Rightarrow> Some (pageIds @ [page_id page])
            | Some nextPage \<Rightarrow>
                generatePageIdsToRemove s (Some page) nextPage (pageIds @ [page_id page])))"

declare generatePageIdsToRemove.simps [code]

definition removeLeafEmptyPagesRecursively :: "object_id option \<Rightarrow> unit io" where
  "removeLeafEmptyPagesRecursively pageId = (\<lambda>s.
     case findById s pageId of
       None \<Rightarrow> Some (Returned (), s)
     | Some initialPage \<Rightarrow>
         if \<not> truthy (isEmpty initialPage) then Some (Returned (), s)
         else (case generatePageIdsToRemove s None initialPage [] of
                 None \<Rightarrow> None
               | Some pageIdsToRemove \<Rightarrow>
                   Some (Returned (), deleteMany (\<lambda>p. page_id p \<in> set pageIdsToRemove) s)))"










text \<open>
  An example tree: the root, the empty page \<^verbatim>\<open>/a\<close> under it and the empty leaf
  \<^verbatim>\<open>/a/b\<close> under \<^verbatim>\<open>/a\<close>.
\<close>

definition stored_page :: "object_id \<Rightarrow> string \<Rightarrow> object_id option \<Rightarrow> bool \<Rightarrow> int \<Rightarrow> page" where
  "stored_page i p par e n =
     (new_Page i)\<lparr>path := p, parent := par, isEmpty := Some e, descendantCount := n\<rparr>"



section \<open>Tree maintenance\<close>

text \<open>
  \<^verbatim>\<open>generateGrantCondition\<close>: the \<^verbatim>\<open>$or\<close> of the grant conditions, as a predicate on a
  page document.
\<close>

definition generateGrantCondition ::
  "user option \<Rightarrow> object_id list option \<Rightarrow> bool \<Rightarrow> bool \<Rightarrow> bool \<Rightarrow> page \<Rightarrow> bool" where
  "generateGrantCondition usr userGroups showAnyoneKnowsLink showPagesRestrictedByOwner
     showPagesRestrictedByGroup p =
     (grant p = None \<or> grant p = Some GRANT_PUBLIC
      \<or> (showAnyoneKnowsLink \<and> grant p = Some GRANT_RESTRICTED)
      \<or> (if showPagesRestrictedByOwner
          then grant p = Some GRANT_SPECIFIED \<or> grant p = Some GRANT_OWNER
          else (case usr of
                  None \<Rightarrow> False
                | Some u \<Rightarrow> (grant p = Some GRANT_SPECIFIED \<or> grant p = Some GRANT_OWNER)
                            \<and> u \<in> set (grantedUsers p)))
      \<or> (if showPagesRestrictedByGroup
          then grant p = Some GRANT_USER_GROUP
          else (case userGroups of
                  None \<Rightarrow> False
                | Some gs \<Rightarrow> 0 < length gs \<and> grant p = Some GRANT_USER_GROUP
                             \<and> (case grantedGroup p of None \<Rightarrow> False | Some g \<Rightarrow> g \<in> set gs))))"

definition userGroupsOf :: "env \<Rightarrow> user option \<Rightarrow> object_id list option" where
  "userGroupsOf env usr = map_option (findAllUserGroupIdsRelatedToUser env) usr"

definition insert_page :: "(object_id \<Rightarrow> page) \<Rightarrow> page io" where
  "insert_page mk = (\<lambda>s. let p = mk (next_id s)
     in Some (Returned p, s\<lparr>pages := pages s @ [p], next_id := Suc (next_id s)\<rparr>))"

fun insertMany :: "(object_id \<Rightarrow> page) list \<Rightarrow> page list io" where
  "insertMany [] = io_return []"
| "insertMany (mk # mks) =
     io_bind (insert_page mk) (\<lambda>p. io_bind (insertMany mks) (\<lambda>ps. io_return (p # ps)))"

definition createEmptyPage ::
  "string \<Rightarrow> object_id option \<Rightarrow> user option \<Rightarrow> int \<Rightarrow> page io" where
  "createEmptyPage pth parentRef creatorRef count =
     (case parentRef of
        None \<Rightarrow> io_throw ParentMustNotBeNull
      | Some parentId \<Rightarrow>
          insert_page (\<lambda>i. (new_Page i)\<lparr>path := pth, isEmpty := Some True,
            parent := Some parentId, descendantCount := count, creator := creatorRef\<rparr>))"

definition isMigrated :: "page \<Rightarrow> bool" where
  "isMigrated p = (parent p \<noteq> None \<or> path p = ''/'')"

definition createEmptyPagesByPaths ::
  "env \<Rightarrow> string list \<Rightarrow> user option \<Rightarrow> bool \<Rightarrow> (page \<Rightarrow> bool) option \<Rightarrow> unit io" where
  "createEmptyPagesByPaths env paths usr onlyMigratedAsExistingPages flt =
     io_bind (io_get (\<lambda>s. find_pages s (\<lambda>p.
         path p \<in> set paths
         \<and> (if onlyMigratedAsExistingPages then isMigrated p else True)
         \<and> (case flt of None \<Rightarrow> True | Some f \<Rightarrow> f p)
         \<and> generateGrantCondition usr (userGroupsOf env usr) False False False p)))
       (\<lambda>existingPages.
          let existingPagePaths = map path existingPages;
              notExistingPagePaths = filter (\<lambda>pth. pth \<notin> set existingPagePaths) paths
          in io_bind (insertMany (map (\<lambda>pth i. (new_Page i)\<lparr>path := pth, isEmpty := Some True,
                                                   creator := usr\<rparr>) notExistingPagePaths))
               (\<lambda>_. io_return ()))"

text \<open>
  An update document that sets \<^verbatim>\<open>parent\<close> to a value read from a JavaScript
  expression: the value is an id, or \<^verbatim>\<open>undefined\<close> (\<^verbatim>\<open>None\<close>) when the expression
  reads \<^verbatim>\<open>_id\<close> of something that is not a document.
\<close>

definition castUpdate :: "env \<Rightarrow> object_id option \<Rightarrow> unit io" where
  "castUpdate env v =
     (case v of
        Some _ \<Rightarrow> io_return ()
      | None \<Rightarrow> (if undefinedInUpdate env = RejectsUpdate
                 then io_throw (External ''bulkWrite'') else io_return ()))"

definition setParent :: "env \<Rightarrow> object_id option \<Rightarrow> page \<Rightarrow> page" where
  "setParent env v p =
     (case v of
        Some i \<Rightarrow> p\<lparr>parent := Some i\<rparr>
      | None \<Rightarrow> (if undefinedInUpdate env = WritesNull then p\<lparr>parent := None\<rparr> else p))"

datatype replacement = NoReplacement | ReplacementPage page | ReplacementTrue

text \<open>
  \<^verbatim>\<open>replaceTargetWithPage(exPage, operator, pageToReplaceWith?, deleteExPageIfEmpty)\<close>.
  The third argument is absent or null (\<^verbatim>\<open>NoReplacement\<close>), a page document, or, as
  two callers pass it, the boolean \<^verbatim>\<open>true\<close>, whose \<^verbatim>\<open>_id\<close> is \<^verbatim>\<open>undefined\<close>. A filter
  \<^verbatim>\<open>_id: undefined\<close> matches no document.
\<close>

definition replaceTargetWithPage ::
  "env \<Rightarrow> page \<Rightarrow> user option \<Rightarrow> replacement \<Rightarrow> bool \<Rightarrow> page option io" where
  "replaceTargetWithPage env exPage operator pageToReplaceWith deleteExPageIfEmpty =
     io_bind (io_get (\<lambda>s. findOne s (\<lambda>q. Some (page_id q) = parent exPage))) (\<lambda>parentDoc.
       case parentDoc of
         None \<Rightarrow> io_throw ParentToUpdateDoesNotExist
       | Some par \<Rightarrow>
           io_bind
             (case pageToReplaceWith of
                NoReplacement \<Rightarrow>
                  io_bind (createEmptyPage (path exPage) (Some (page_id par)) operator
                             (descendantCount exPage))
                    (\<lambda>p. io_return (Some (page_id p)))
              | ReplacementPage p \<Rightarrow> io_return (Some (page_id p))
              | ReplacementTrue \<Rightarrow> io_return None)
             (\<lambda>newTargetId.
           io_bind (io_get (\<lambda>s. find_pages s (\<lambda>q. parent q = Some (page_id exPage)))) (\<lambda>children.
           io_seq (castUpdate env newTargetId)
          (io_seq (io_modify (updateOne (\<lambda>q. Some (page_id q) = newTargetId)
                                (\<lambda>q. q\<lparr>parent := Some (page_id par)\<rparr>)))
          (io_seq (io_modify (updateMany (\<lambda>q. page_id q \<in> set (map page_id children))
                                (setParent env newTargetId)))
          (io_seq (if deleteExPageIfEmpty \<and> truthy (isEmpty exPage)
                   then io_modify (deleteOne (\<lambda>q. page_id q = page_id exPage))
                   else io_return ())
                  (io_get (\<lambda>s. findById s newTargetId))))))))"

text \<open>
  Sorting by \<^verbatim>\<open>-path\<close>: descending in the byte order of the paths; documents with the
  same path keep the order of the collection.
\<close>

fun insort_desc_path :: "page \<Rightarrow> page list \<Rightarrow> page list" where
  "insort_desc_path p [] = [p]"
| "insort_desc_path p (q # qs) =
     (if path q < path p then p # q # qs else q # insort_desc_path p qs)"

definition sortPagesByDescPath :: "page list \<Rightarrow> page list" where
  "sortPagesByDescPath ps = foldl (\<lambda>acc p. insort_desc_path p acc) [] ps"

definition applicableAncestor :: "string list \<Rightarrow> page \<Rightarrow> bool" where
  "applicableAncestor pathsToFilter p =
     (path p = ''/''
      \<or> (path p \<in> set pathsToFilter \<and> grant p = Some GRANT_PUBLIC \<and> status p = STATUS_PUBLISHED)
      \<or> (path p \<in> set pathsToFilter \<and> parent p \<noteq> None \<and> status p = STATUS_PUBLISHED)
      \<or> (path p \<notin> set pathsToFilter \<and> status p = STATUS_PUBLISHED))"

text \<open>
  The parent links of \<^verbatim>\<open>getParentAndFillAncestors\<close>: for each ancestor that is not
  the top page, its id and the id of the page the map holds for its parent path;
  reading \<^verbatim>\<open>_id\<close> of a missing map entry is a TypeError.
\<close>

fun ancestor_links :: "(string \<rightharpoonup> page) \<Rightarrow> page list \<Rightarrow> (object_id \<times> object_id) list option" where
  "ancestor_links m [] = Some []"
| "ancestor_links m (p # ps) =
     (case m (dirname (path p)) of
        None \<Rightarrow> None
      | Some par \<Rightarrow> map_option (\<lambda>ls. (page_id p, page_id par) # ls) (ancestor_links m ps))"

definition getParentAndFillAncestors :: "env \<Rightarrow> string \<Rightarrow> user option \<Rightarrow> page option io" where
  "getParentAndFillAncestors env pth usr =
     (let parentPath = dirname pth in
      io_bind (io_get (\<lambda>s. find_pages s (\<lambda>p. path p = parentPath \<and> isMigrated p))) (\<lambda>pagesCanBeParent.
        case pagesCanBeParent of
          p # _ \<Rightarrow> io_return (Some p)
        | [] \<Rightarrow>
            (let ancestorPaths = collectAncestorPaths env pth in
             io_seq (createEmptyPagesByPaths env ancestorPaths usr True None)
            (io_bind (io_get (\<lambda>s. sortPagesByDescPath (find_pages s (\<lambda>p.
                        applicableAncestor ancestorPaths p \<and> path p \<in> set ancestorPaths))))
               (\<lambda>ancestors.
                  let ancestorsMap = map_of (map (\<lambda>p. (path p, p)) ancestors);
                      nonRootAncestors = filter (\<lambda>p. \<not> isTopPage (path p)) ancestors
                  in case ancestor_links ancestorsMap nonRootAncestors of
                       None \<Rightarrow> io_throw TypeError
                     | Some links \<Rightarrow>
                         io_seq (io_mapM (\<lambda>(i, par). io_modify (updateOne (\<lambda>q. page_id q = i)
                                              (\<lambda>q. q\<lparr>parent := Some par\<rparr>))) links)
                                (io_return (ancestorsMap parentPath)))))))"

text \<open>
  \<^verbatim>\<open>findAncestorsUsingParentRecursively\<close>: the walk up the parent references has no
  bound of its own; on a cycle of references it does not return.
\<close>

partial_function (option) findAncestorsRecursively ::
  "db \<Rightarrow> page \<Rightarrow> page list \<Rightarrow> page list option" where
  "findAncestorsRecursively s target ancestors =
     (case findOne s (\<lambda>q. Some (page_id q) = parent target) of
        None \<Rightarrow> Some ancestors
      | Some par \<Rightarrow> findAncestorsRecursively s par (ancestors @ [par]))"

declare findAncestorsRecursively.simps [code]

definition findAncestorsUsingParentRecursively :: "object_id option \<Rightarrow> bool \<Rightarrow> page list io" where
  "findAncestorsUsingParentRecursively pageId shouldIncludeTarget = (\<lambda>s.
     case findById s pageId of
       None \<Rightarrow> Some (Threw TargetNotFound, s)
     | Some target \<Rightarrow>
         (case findAncestorsRecursively s target (if shouldIncludeTarget then [target] else []) of
            None \<Rightarrow> None
          | Some ancestors \<Rightarrow> Some (Returned ancestors, s)))"

definition incrementDescendantCountOfPageIds :: "object_id list \<Rightarrow> int \<Rightarrow> unit io" where
  "incrementDescendantCountOfPageIds pageIds increment =
     io_modify (updateMany (\<lambda>q. page_id q \<in> set pageIds)
                  (\<lambda>q. q\<lparr>descendantCount := descendantCount q + increment\<rparr>))"

definition updateDescendantCountOfAncestors :: "object_id option \<Rightarrow> int \<Rightarrow> bool \<Rightarrow> unit io" where
  "updateDescendantCountOfAncestors pageId inc shouldIncludeTarget =
     io_bind (findAncestorsUsingParentRecursively pageId shouldIncludeTarget) (\<lambda>ancestors.
       incrementDescendantCountOfPageIds (map page_id ancestors) inc)"

definition takeOffFromTree :: "object_id \<Rightarrow> unit io" where
  "takeOffFromTree pageId =
     io_modify (updateOne (\<lambda>q. page_id q = pageId) (\<lambda>q. q\<lparr>parent := None\<rparr>))"

definition removeEmptyPages :: "object_id list \<Rightarrow> string list \<Rightarrow> unit io" where
  "removeEmptyPages pageIdsToNotRemove paths =
     io_modify (deleteMany (\<lambda>q. page_id q \<notin> set pageIdsToNotRemove \<and> path q \<in> set paths
                                \<and> isEmpty q = Some True))"

definition pushRevision :: "page \<Rightarrow> string \<Rightarrow> user \<Rightarrow> page io" where
  "pushRevision pageData newRevision usr =
     (let saved = pageData\<lparr>revision := Some newRevision, lastUpdateUser := Some usr\<rparr>
      in io_seq (io_modify (save saved)) (io_return saved))"

section \<open>Page.create and Page.updatePage\<close>

text \<open>
  The grant validation block that create, updatePage, rename, duplicate and
  normalizeParentByPage share: an error of the grant service is thrown on, and the
  answer \<^verbatim>\<open>false\<close> is the error that the grant is not assignable.
\<close>

definition validateGrant ::
  "env \<Rightarrow> user \<Rightarrow> string \<Rightarrow> nat option \<Rightarrow> object_id list option \<Rightarrow> object_id option \<Rightarrow> bool
     \<Rightarrow> unit io" where
  "validateGrant env usr pth g grantedUserIds grantedGroupId shouldCheckDescendants =
     io_bind (io_get (isGrantNormalized env usr pth g grantedUserIds grantedGroupId
                        shouldCheckDescendants))
       (\<lambda>r. case r of
               Inl err \<Rightarrow> io_throw (External err)
             | Inr isNormalized \<Rightarrow>
                 if \<not> isNormalized then io_throw GrantIsNotAssignable else io_return ())"

definition deleteRedirectFrom :: "string \<Rightarrow> unit io" where
  "deleteRedirectFrom pth =
     io_modify (\<lambda>s. s\<lparr>redirects := remove_first (\<lambda>r. fromPath r = pth) (redirects s)\<rparr>)"

definition create :: "env \<Rightarrow> string \<Rightarrow> string \<Rightarrow> user \<Rightarrow> PageCreateOptions \<Rightarrow> page io" where
  "create env path0 body usr options =
     (if \<not> servicesReady env then io_throw CrowiIsNotSetup
      else if \<not> isV5Compatible env then createV4 env path0 body usr options
      else
        io_bind (io_get (canOperate env False None (Some path0))) (\<lambda>canOp.
        if \<not> canOp then io_throw CannotOperateRightNow
        else
          (let pth = xss_process env path0 in
           io_bind (io_get (\<lambda>s. 0 < count_pages s (\<lambda>p. path p = pth \<and> isEmpty p = Some False)))
             (\<lambda>isExist.
           if isExist then io_throw CannotCreateNewPageToExistedPath
           else
             (let g = (if isTopPage pth then Some GRANT_PUBLIC else opt_grant options);
                  grantUserGroupId = opt_grantUserGroupId options in
              io_bind (io_get (\<lambda>s. findOne s (\<lambda>p. path p = pth \<and> isEmpty p = Some True)))
                (\<lambda>emptyPage.
              io_seq
                (if g \<noteq> Some GRANT_RESTRICTED
                 then validateGrant env usr pth g
                        (if g = Some GRANT_OWNER then Some [usr] else None) grantUserGroupId
                        (emptyPage \<noteq> None)
                 else io_return ())
             (io_bind
                (case emptyPage of
                   Some ep \<Rightarrow>
                     if g \<noteq> Some GRANT_RESTRICTED
                     then io_bind (io_get (\<lambda>s. recountDescendantCount s (page_id ep)))
                            (\<lambda>count. io_return (ep\<lparr>descendantCount := count, isEmpty := Some False\<rparr>))
                     else io_bind fresh_id (\<lambda>i. io_return (new_Page i))
                 | None \<Rightarrow> io_bind fresh_id (\<lambda>i. io_return (new_Page i)))
                (\<lambda>page0.
              let page1 = page0\<lparr>path := pth, creator := Some usr, lastUpdateUser := Some usr,
                                status := STATUS_PUBLISHED\<rparr> in
              io_bind
                (if isTopPage pth \<or> g = Some GRANT_RESTRICTED
                 then io_return (page1\<lparr>parent := None\<rparr>)
                 else io_bind (getParentAndFillAncestors env pth (Some usr)) (\<lambda>par.
                        case par of
                          None \<Rightarrow> io_throw TypeError
                        | Some pp \<Rightarrow> io_return (page1\<lparr>parent := Some (page_id pp)\<rparr>)))
                (\<lambda>page2.
              let page3 = applyScope env usr g grantUserGroupId page2 in
              io_seq (io_modify (save page3))
             (io_seq (deleteRedirectFrom pth)
             (io_bind (pushRevision page3 body usr) (\<lambda>savedPage.
              io_seq (updateDescendantCountOfAncestors (Some (page_id savedPage)) 1 False)
                     (io_return savedPage)))))))))))))"


definition js_or :: "nat option \<Rightarrow> nat option \<Rightarrow> nat option" where
  "js_or a b = (case a of None \<Rightarrow> b | Some n \<Rightarrow> if n = 0 then b else Some n)"

text \<open>
  A regular expression \<^verbatim>\<open>^\<close> followed by \<^verbatim>\<open>escapeStringRegexp(lit)\<close> holds of the
  strings that start with \<^verbatim>\<open>lit\<close>: the escaping makes every character literal.
\<close>

definition startsWith :: "string \<Rightarrow> string \<Rightarrow> bool" where
  "startsWith lit str = (take (length lit) str = lit)"


section \<open>Reasoning about operations\<close>

text \<open>
  \<^verbatim>\<open>io_post m s Q\<close>: when the operation \<^verbatim>\<open>m\<close> returns a value from the database \<^verbatim>\<open>s\<close>,
  the value and the database it leaves satisfy \<^verbatim>\<open>Q\<close>.
\<close>

definition io_post :: "'a io \<Rightarrow> db \<Rightarrow> ('a \<Rightarrow> db \<Rightarrow> bool) \<Rightarrow> bool" where
  "io_post m s Q = (\<forall>r s'. m s = Some (Returned r, s') \<longrightarrow> Q r s')"


lemma io_post_return: "Q x s \<Longrightarrow> io_post (io_return x) s Q"
  by (simp add: io_post_def io_return_def)

lemma io_post_throw: "io_post (io_throw e) s Q"
  by (simp add: io_post_def io_throw_def)

lemma io_post_get: "Q (q s) s \<Longrightarrow> io_post (io_get q) s Q"
  by (simp add: io_post_def io_get_def)

lemma io_post_modify: "Q () (f s) \<Longrightarrow> io_post (io_modify f) s Q"
  by (simp add: io_post_def io_modify_def)

lemma io_post_bind:
  "io_post m s (\<lambda>y s1. io_post (f y) s1 Q) \<Longrightarrow> io_post (io_bind m f) s Q"
  by (auto simp: io_post_def io_bind_def split: option.splits result.splits)

lemma io_post_seq:
  "io_post m s (\<lambda>_ s1. io_post n s1 Q) \<Longrightarrow> io_post (io_seq m n) s Q"
  by (simp add: io_seq_def io_post_bind)

lemma io_post_any: "(\<And>y s1. Q y s1) \<Longrightarrow> io_post m s Q"
  by (simp add: io_post_def)

lemma io_post_weaken:
  "io_post m s Q' \<Longrightarrow> (\<And>r s'. Q' r s' \<Longrightarrow> Q r s') \<Longrightarrow> io_post m s Q"
  by (simp add: io_post_def)

lemma io_post_fresh_id: "Q (next_id s) (s\<lparr>next_id := Suc (next_id s)\<rparr>) \<Longrightarrow> io_post fresh_id s Q"
  by (simp add: io_post_def fresh_id_def)

lemma io_post_pushRevision:
  "Q (pg\<lparr>revision := Some body, lastUpdateUser := Some usr\<rparr>)
     (save (pg\<lparr>revision := Some body, lastUpdateUser := Some usr\<rparr>) s)
   \<Longrightarrow> io_post (pushRevision pg body usr) s Q"
  by (simp add: pushRevision_def Let_def io_post_seq io_post_modify io_post_return)

lemma io_post_validateGrant:
  "(\<And>s1. Q () s1) \<Longrightarrow> io_post (validateGrant env usr pth g us gid chk) s Q"
  by (rule io_post_any) simp


lemma io_post_removeLeafEmptyPagesRecursively:
  "(\<And>s1. Q () s1) \<Longrightarrow> io_post (removeLeafEmptyPagesRecursively i) s Q"
  by (rule io_post_any) simp

lemma io_post_getParentAndFillAncestors:
  "(\<And>y s1. Q y s1) \<Longrightarrow> io_post (getParentAndFillAncestors env pth usr) s Q"
  by (rule io_post_any) simp

lemma io_post_createEmptyPage:
  "(\<And>y s1. Q y s1) \<Longrightarrow> io_post (createEmptyPage pth par usr n) s Q"
  by (rule io_post_any) simp


text \<open>
  The assumption on \<^verbatim>\<open>applyScope\<close> of the obsolete page model (not among the sources):
  it assigns the three fields of the scope, \<^verbatim>\<open>grant\<close>, \<^verbatim>\<open>grantedUsers\<close> and
  \<^verbatim>\<open>grantedGroup\<close>, and no other field of the document; the grant it assigns is
  \<^verbatim>\<open>grant || GRANT_PUBLIC\<close>.
\<close>

definition applyScope_sets_grant :: "env \<Rightarrow> bool" where
  "applyScope_sets_grant env =
     (\<forall>u g gid p. \<exists>us gr.
        applyScope env u g gid p
          = p\<lparr>grant := js_or g (Some GRANT_PUBLIC), grantedUsers := us, grantedGroup := gr\<rparr>)"

lemma applyScope_fields:
  assumes "applyScope_sets_grant env"
  shows "page_id (applyScope env u g gid p) = page_id p"
    and "path (applyScope env u g gid p) = path p"
    and "parent (applyScope env u g gid p) = parent p"
    and "descendantCount (applyScope env u g gid p) = descendantCount p"
    and "isEmpty (applyScope env u g gid p) = isEmpty p"
    and "status (applyScope env u g gid p) = status p"
    and "creator (applyScope env u g gid p) = creator p"
    and "lastUpdateUser (applyScope env u g gid p) = lastUpdateUser p"
    and "revision (applyScope env u g gid p) = revision p"
    and "deleteUser (applyScope env u g gid p) = deleteUser p"
    and "grant (applyScope env u g gid p) = js_or g (Some GRANT_PUBLIC)"
proof -
  from assms obtain us gr where
    "applyScope env u g gid p
       = p\<lparr>grant := js_or g (Some GRANT_PUBLIC), grantedUsers := us, grantedGroup := gr\<rparr>"
    unfolding applyScope_sets_grant_def by blast
  then show "page_id (applyScope env u g gid p) = page_id p"
    and "path (applyScope env u g gid p) = path p"
    and "parent (applyScope env u g gid p) = parent p"
    and "descendantCount (applyScope env u g gid p) = descendantCount p"
    and "isEmpty (applyScope env u g gid p) = isEmpty p"
    and "status (applyScope env u g gid p) = status p"
    and "creator (applyScope env u g gid p) = creator p"
    and "lastUpdateUser (applyScope env u g gid p) = lastUpdateUser p"
    and "revision (applyScope env u g gid p) = revision p"
    and "deleteUser (applyScope env u g gid p) = deleteUser p"
    and "grant (applyScope env u g gid p) = js_or g (Some GRANT_PUBLIC)"
    by simp_all
qed


lemma js_or_given: "0 < n \<Longrightarrow> js_or (Some n) b = Some n"
  by (simp add: js_or_def)

section \<open>Page operations and redirects\<close>

text \<open>
  Modelled from the spec: the PageOperation and PageRedirect models are not among the
  sources. An operation-log record is created with a fresh id, moved to another stage
  and deleted by id; a redirect is keyed by its \<^verbatim>\<open>fromPath\<close>, so creating a second one
  for the same \<^verbatim>\<open>fromPath\<close> is the duplicate key error (code 11000).
\<close>

definition PageOperation_create ::
  "string \<Rightarrow> page \<Rightarrow> string \<Rightarrow> string option \<Rightarrow> object_id io" where
  "PageOperation_create action pg fromP toP = (\<lambda>s.
     Some (Returned (next_id s),
           s\<lparr>operations := operations s @
                 [\<lparr>op_id = next_id s, actionType = action, actionStage = ''Main'',
                   op_page = page_id pg, op_fromPath = fromP, op_toPath = toP\<rparr>],
             next_id := Suc (next_id s)\<rparr>))"

definition findByIdAndUpdatePageActionStage ::
  "object_id \<Rightarrow> string \<Rightarrow> page_operation option io" where
  "findByIdAndUpdatePageActionStage opId stage = (\<lambda>s.
     case find (\<lambda>x. op_id x = opId) (operations s) of
       None \<Rightarrow> Some (Returned None, s)
     | Some found \<Rightarrow>
         Some (Returned (Some (found\<lparr>actionStage := stage\<rparr>)),
               s\<lparr>operations := map (\<lambda>x. if op_id x = opId then x\<lparr>actionStage := stage\<rparr> else x)
                                   (operations s)\<rparr>))"

definition PageOperation_findByIdAndDelete :: "object_id \<Rightarrow> unit io" where
  "PageOperation_findByIdAndDelete opId =
     io_modify (\<lambda>s. s\<lparr>operations := remove_first (\<lambda>x. op_id x = opId) (operations s)\<rparr>)"

definition PageRedirect_create :: "string \<Rightarrow> string \<Rightarrow> unit io" where
  "PageRedirect_create fromP toP = (\<lambda>s.
     if list_ex (\<lambda>r. fromPath r = fromP) (redirects s) then Some (Threw DuplicateKey, s)
     else Some (Returned (), s\<lparr>redirects := redirects s @ [\<lparr>fromPath = fromP, toPath = toP\<rparr>]\<rparr>))"

text \<open>An ordered bulk insert of redirects stops at the first error.\<close>

fun PageRedirect_bulkWrite :: "(string \<times> string) list \<Rightarrow> unit io" where
  "PageRedirect_bulkWrite [] = io_return ()"
| "PageRedirect_bulkWrite ((f, t) # rs) = io_seq (PageRedirect_create f t) (PageRedirect_bulkWrite rs)"

definition io_catch :: "'a io \<Rightarrow> (error \<Rightarrow> 'a io) \<Rightarrow> 'a io" where
  "io_catch m h = (\<lambda>s. case m s of
       None \<Rightarrow> None
     | Some (Returned x, s') \<Rightarrow> Some (Returned x, s')
     | Some (Threw e, s') \<Rightarrow> h e s')"

definition findByIdAndUpdate :: "object_id \<Rightarrow> (page \<Rightarrow> page) \<Rightarrow> page option io" where
  "findByIdAndUpdate pageId f = (\<lambda>s.
     case findById s (Some pageId) of
       None \<Rightarrow> Some (Returned None, s)
     | Some q \<Rightarrow> Some (Returned (Some (f q)), updateOne (\<lambda>x. page_id x = pageId) f s))"

text \<open>\<^verbatim>\<open>createBatchStream(n)\<close>: the documents of a cursor in batches of \<^verbatim>\<open>n\<close>.\<close>

function createBatchStream :: "nat \<Rightarrow> 'a list \<Rightarrow> 'a list list" where
  "createBatchStream n xs =
     (if n = 0 \<or> xs = [] then [] else take n xs # createBatchStream n (drop n xs))"
  by pat_completeness auto
termination
  by (relation "measure (\<lambda>(n, xs). length xs)") auto

definition BULK_REINDEX_SIZE :: nat where "BULK_REINDEX_SIZE = 100"
definition LIMIT_FOR_MULTIPLE_PAGE_OP :: nat where "LIMIT_FOR_MULTIPLE_PAGE_OP = 20"

section \<open>Rename\<close>

definition shouldUseV4Process :: "env \<Rightarrow> page \<Rightarrow> bool" where
  "shouldUseV4Process env pg =
     (let isTrashPage = (status pg = STATUS_DELETED);
          isPageMigrated = (parent pg \<noteq> None);
          isRoot = isTopPage (path pg);
          isPageRestricted = (grant pg = Some GRANT_RESTRICTED)
      in \<not> isRoot \<and> (\<not> isV5Compatible env \<or> \<not> isPageMigrated \<or> isTrashPage \<or> isPageRestricted))"

record rename_options =
  isMoveMode :: bool
  createRedirectPage :: bool
  updateMetadata :: bool
  renameRecursively :: bool

text \<open>
  A regular expression \<^verbatim>\<open>^\<close> followed by an escaped literal, with the flag \<^verbatim>\<open>i\<close>: the
  strings that start with the literal, letters compared without case.
\<close>

definition startsWith_ignoreCase :: "string \<Rightarrow> string \<Rightarrow> bool" where
  "startsWith_ignoreCase lit str =
     (map toUpperCase (take (length lit) str) = map toUpperCase lit)"

definition replacePrefix_ignoreCase :: "string \<Rightarrow> string \<Rightarrow> string \<Rightarrow> string" where
  "replacePrefix_ignoreCase lit new str =
     (if startsWith_ignoreCase lit str then new @ drop (length lit) str else str)"

definition isRenamingToUnderTarget :: "env \<Rightarrow> string \<Rightarrow> string \<Rightarrow> bool" where
  "isRenamingToUnderTarget env fromP toP = startsWith_ignoreCase (addTrailingSlash env fromP) toP"

text \<open>
  The local recursion of \<^verbatim>\<open>getParentAndforceCreateEmptyTree\<close> climbs from the new path
  until it meets the old one; it has no other exit.
\<close>

partial_function (option) collectAncestorPathsUntilFromPath ::
  "string \<Rightarrow> string \<Rightarrow> string list \<Rightarrow> string list option" where
  "collectAncestorPathsUntilFromPath fromP pth paths =
     (if pth = fromP then Some paths
      else collectAncestorPathsUntilFromPath fromP (dirname pth) (paths @ [dirname pth]))"

declare collectAncestorPathsUntilFromPath.simps [code]

definition getParentAndforceCreateEmptyTree :: "env \<Rightarrow> page \<Rightarrow> string \<Rightarrow> page option io" where
  "getParentAndforceCreateEmptyTree env originalPage toP =
     io_bind (io_of_option (collectAncestorPathsUntilFromPath (path originalPage) toP []))
       (\<lambda>pathsToInsert.
     io_bind (io_get (\<lambda>s. findById s (parent originalPage))) (\<lambda>originalParent.
       case originalParent of
         None \<Rightarrow> io_throw OriginalParentNotFound
       | Some origPar \<Rightarrow>
           io_bind (insertMany (map (\<lambda>pth i. (new_Page i)\<lparr>path := pth, isEmpty := Some True\<rparr>)
                                 pathsToInsert))
             (\<lambda>insertedPages.
                let ancestorsMap = map_of (rev (map (\<lambda>p. (path p, p)) (insertedPages @ [origPar])));
                    parentIdOf = (\<lambda>p. map_option page_id (ancestorsMap (dirname (path p))))
                in io_seq (io_mapM (\<lambda>p. castUpdate env (parentIdOf p)) insertedPages)
                  (io_seq (io_mapM (\<lambda>p. io_modify (updateOne (\<lambda>q. page_id q = page_id p)
                                                      (setParent env (parentIdOf p))))
                             insertedPages)
                          (io_return (ancestorsMap (dirname toP)))))))"

definition generateReadStreamToOperateOnlyDescendants ::
  "env \<Rightarrow> string \<Rightarrow> user \<Rightarrow> db \<Rightarrow> page list" where
  "generateReadStreamToOperateOnlyDescendants env targetPagePath userToOperate s =
     find_pages s (\<lambda>p. parent p = None
        \<and> (if isTopPage targetPagePath then True
            else startsWith (addTrailingSlash env targetPagePath) (path p))
        \<and> viewerCanEdit env userToOperate p)"

definition renameDescendantsV4 ::
  "page list \<Rightarrow> user \<Rightarrow> rename_options \<Rightarrow> string \<Rightarrow> string \<Rightarrow> unit io" where
  "renameDescendantsV4 batch usr options oldPagePathPrefix newPagePathPrefix =
     io_seq (io_mapM (\<lambda>pg. io_modify (updateMany (\<lambda>q. page_id q = page_id pg)
                (\<lambda>q. q\<lparr>path := replacePrefix_ignoreCase oldPagePathPrefix newPagePathPrefix (path pg),
                       lastUpdateUser := (if updateMetadata options then Some usr
                                          else lastUpdateUser q)\<rparr>))) batch)
            (io_catch
               (PageRedirect_bulkWrite
                  (map (\<lambda>pg. (path pg, replacePrefix_ignoreCase oldPagePathPrefix newPagePathPrefix (path pg)))
                     (filter (\<lambda>pg. \<not> truthy (isEmpty pg) \<and> createRedirectPage options) batch)))
               (\<lambda>err. if err = DuplicateKey then io_return () else io_throw err))"

definition renameDescendantsWithStreamV4 ::
  "env \<Rightarrow> page \<Rightarrow> string \<Rightarrow> user \<Rightarrow> rename_options \<Rightarrow> unit io" where
  "renameDescendantsWithStreamV4 env targetPage newPagePath usr options =
     io_bind (io_get (generateReadStreamToOperateOnlyDescendants env (path targetPage) usr))
       (\<lambda>readStream.
          io_mapM (\<lambda>batch. io_catch
                     (renameDescendantsV4 batch usr options (path targetPage) newPagePath)
                     (\<lambda>_. io_return ()))
            (createBatchStream BULK_REINDEX_SIZE readStream))"

text \<open>
  \<^verbatim>\<open>renamePageV4\<close>. The stream of the recursive rename assigns the new path to the
  \<^verbatim>\<open>targetPage\<close> object it was given, which is the caller's \<^verbatim>\<open>page\<close>: after it,
  \<^verbatim>\<open>page.path\<close> is the new path.
\<close>

definition renamePageV4 ::
  "env \<Rightarrow> page \<Rightarrow> string \<Rightarrow> user \<Rightarrow> rename_options \<Rightarrow> page option io" where
  "renamePageV4 env pg newPagePath0 usr options =
     (let newPagePath = xss_process env newPagePath0 in
      io_bind (if renameRecursively options
               then io_seq (renameDescendantsWithStreamV4 env pg newPagePath usr options)
                           (io_return (pg\<lparr>path := newPagePath\<rparr>))
               else io_return pg) (\<lambda>pg'.
      io_bind (findByIdAndUpdate (page_id pg')
                 (\<lambda>q. q\<lparr>path := newPagePath,
                        lastUpdateUser := (if updateMetadata options then Some usr
                                           else lastUpdateUser q)\<rparr>)) (\<lambda>renamedPage.
        case renamedPage of
          None \<Rightarrow> io_throw TypeError
        | Some rp \<Rightarrow>
            io_seq (if createRedirectPage options
                    then PageRedirect_create (path pg') newPagePath else io_return ())
                   (io_return (Some rp)))))"

text \<open>
  \<^verbatim>\<open>renameMainOperation\<close>. The sub operation it starts last is not awaited: it runs
  after the caller has its result, and is not part of this model.
\<close>

definition renameMainOperation ::
  "env \<Rightarrow> page \<Rightarrow> string \<Rightarrow> user \<Rightarrow> rename_options \<Rightarrow> object_id \<Rightarrow> page option io" where
  "renameMainOperation env pg newPagePath0 usr options pageOpId =
     (let newPagePath = xss_process env newPagePath0 in
      io_bind
        (if truthy (isEmpty pg) then
           io_bind (io_get (\<lambda>s. findOne s (\<lambda>q. Some (page_id q) = parent pg))) (\<lambda>par.
             case par of
               None \<Rightarrow> io_throw ParentNotFound
             | Some p \<Rightarrow> io_return (grant p, grantedUsers p, grantedGroup p))
         else io_return (grant pg, grantedUsers pg, grantedGroup pg))
        (\<lambda>(g, grantedUserIds, grantedGroupId).
      io_seq (if g \<noteq> Some GRANT_RESTRICTED
              then validateGrant env usr newPagePath g (Some grantedUserIds) grantedGroupId False
              else io_return ())
     (io_seq (takeOffFromTree (page_id pg))
     (io_bind (if isRenamingToUnderTarget env (path pg) newPagePath
               then getParentAndforceCreateEmptyTree env pg newPagePath
               else getParentAndFillAncestors env newPagePath (Some usr)) (\<lambda>newParent.
        case newParent of
          None \<Rightarrow> io_throw TypeError
        | Some np \<Rightarrow>
            io_bind (findByIdAndUpdate (page_id pg)
                       (\<lambda>q. q\<lparr>path := newPagePath, parent := Some (page_id np),
                              lastUpdateUser := (if updateMetadata options then Some usr
                                                 else lastUpdateUser q)\<rparr>)) (\<lambda>renamedPage.
            io_seq (if createRedirectPage options
                    then PageRedirect_create (path pg) newPagePath else io_return ())
           (io_bind (findByIdAndUpdatePageActionStage pageOpId ''Sub'') (\<lambda>pageOp.
              case pageOp of
                None \<Rightarrow> io_throw PageOperationDocumentNotFound
              | Some _ \<Rightarrow> io_return renamedPage))))))))"

definition renamePage ::
  "env \<Rightarrow> page \<Rightarrow> string \<Rightarrow> user \<Rightarrow> rename_options \<Rightarrow> page option io" where
  "renamePage env pg newPagePath usr options =
     io_bind (io_get (\<lambda>s. page_exists s (\<lambda>q. path q = newPagePath))) (\<lambda>isExist.
     if isExist then io_throw PageAlreadyExistsAt
     else if isTopPage (path pg) then io_throw ForbiddenToRenameTopPage
     else if shouldUseV4Process env pg then renamePageV4 env pg newPagePath usr options
     else
       io_seq
         (if isMoveMode options then
            io_bind (io_get (\<lambda>s. canMoveByPath env (path pg) newPagePath
                                  \<and> page_exists s (\<lambda>q. path q = newPagePath)))
              (\<lambda>canMove. if \<not> canMove then io_throw CannotMoveToThisPath else io_return ())
          else io_return ())
      (io_bind (io_get (canOperate env True (Some (path pg)) (Some newPagePath))) (\<lambda>canOp.
       if \<not> canOp then io_throw CannotOperateRightNow
       else
         io_bind (PageOperation_create ''Rename'' pg (path pg) (Some newPagePath)) (\<lambda>pageOpId.
           renameMainOperation env pg newPagePath usr options pageOpId))))"

section \<open>Duplicate\<close>




section \<open>Delete\<close>

definition deleteNonEmptyTarget :: "env \<Rightarrow> page \<Rightarrow> user \<Rightarrow> page option io" where
  "deleteNonEmptyTarget env pg usr =
     (let newPath = getDeletedPageName env (path pg) in
      io_bind (findByIdAndUpdate (page_id pg)
                 (\<lambda>q. q\<lparr>path := newPath, status := STATUS_DELETED, deleteUser := Some usr,
                        parent := None, descendantCount := 0\<rparr>)) (\<lambda>deletedPage.
      io_seq (io_catch (PageRedirect_create (path pg) newPath)
                (\<lambda>err. if err = DuplicateKey then io_return () else io_throw err))
             (io_return deletedPage)))"

definition deleteEmptyTarget :: "page \<Rightarrow> unit io" where
  "deleteEmptyTarget pg =
     io_modify (deleteOne (\<lambda>q. page_id q = page_id pg \<and> isEmpty q = Some True))"

text \<open>
  \<^verbatim>\<open>deletePageV4\<close>; the stream over the descendants of a recursive delete is started
  and not awaited.
\<close>

definition deletePageV4 :: "env \<Rightarrow> page \<Rightarrow> user \<Rightarrow> bool \<Rightarrow> page option io" where
  "deletePageV4 env pg usr isRecursively =
     (let newPath = getDeletedPageName env (path pg) in
      if isTrashPage env (path pg) then io_throw NotSupportDeletingTrashedPages
      else if \<not> isMovablePage env (path pg) then io_throw PageIsNotDeletable
      else
        io_bind (findByIdAndUpdate (page_id pg)
                   (\<lambda>q. q\<lparr>path := newPath, status := STATUS_DELETED, deleteUser := Some usr\<rparr>))
          (\<lambda>deletedPage.
        io_seq (io_catch (PageRedirect_create (path pg) newPath)
                  (\<lambda>err. if err = DuplicateKey then io_return () else io_throw err))
               (io_return deletedPage)))"

text \<open>
  \<^verbatim>\<open>deletePage\<close>. The call \<^verbatim>\<open>Page.replaceTargetWithPage(page, null, true)\<close> binds
  \<^verbatim>\<open>null\<close> to \<^verbatim>\<open>operator\<close> and \<^verbatim>\<open>true\<close> to \<^verbatim>\<open>pageToReplaceWith\<close>; the fourth
  parameter keeps its default \<^verbatim>\<open>false\<close>. \<^verbatim>\<open>page\<close> is the caller's document: its
  \<^verbatim>\<open>parent\<close> is the one it was read with.
\<close>

definition deletePage :: "env \<Rightarrow> page \<Rightarrow> user \<Rightarrow> bool \<Rightarrow> page option io" where
  "deletePage env pg usr isRecursively =
     (if shouldUseV4Process env pg then deletePageV4 env pg usr isRecursively
      else if truthy (isEmpty pg) \<and> \<not> isRecursively then io_throw PageNotFound
      else if isTrashPage env (path pg) then io_throw NotSupportDeletingTrashedPages
      else if \<not> isMovablePage env (path pg) then io_throw PageIsNotDeletable
      else
        (let newPath = getDeletedPageName env (path pg) in
         io_bind (io_get (canOperate env isRecursively (Some (path pg)) (Some newPath))) (\<lambda>canOp.
         if \<not> canOp then io_throw CannotOperateRightNow
         else
           io_bind (io_get (\<lambda>s. page_exists s (\<lambda>q. parent q = Some (page_id pg))))
             (\<lambda>isChildrenExist.
           io_seq (if \<not> isRecursively \<and> isChildrenExist
                   then io_bind (replaceTargetWithPage env pg None ReplacementTrue False)
                          (\<lambda>_. io_return ())
                   else io_return ())
          (io_bind (if \<not> truthy (isEmpty pg) then deleteNonEmptyTarget env pg usr
                    else io_seq (deleteEmptyTarget pg) (io_return (Some pg))) (\<lambda>deletedPage.
           io_seq (if isRecursively
                   then updateDescendantCountOfAncestors (parent pg)
                          (if truthy (isEmpty pg) then - descendantCount pg
                           else - (descendantCount pg + 1)) True
                   else updateDescendantCountOfAncestors (parent pg) (- 1) True)
          (io_seq (removeLeafEmptyPagesRecursively (parent pg))
          (io_seq (if isRecursively
                   then io_bind (PageOperation_create ''Delete'' pg (path pg) (Some newPath))
                          (\<lambda>_. io_return ())
                   else io_return ())
                  (io_return deletedPage)))))))))"

text \<open>
  \<^verbatim>\<open>deleteCompletelyOperation\<close>: of the collections it clears, the model has the pages
  and the redirects.
\<close>

definition deleteCompletelyOperation :: "object_id list \<Rightarrow> string list \<Rightarrow> unit io" where
  "deleteCompletelyOperation pageIds pagePaths =
     io_seq (io_modify (deleteMany (\<lambda>q. page_id q \<in> set pageIds)))
            (io_modify (\<lambda>s. s\<lparr>redirects := filter (\<lambda>r. \<not> (fromPath r \<in> set pagePaths
                                                          \<or> toPath r \<in> set pagePaths))
                                           (redirects s)\<rparr>))"

definition deleteCompletelyV4 :: "env \<Rightarrow> page \<Rightarrow> user \<Rightarrow> bool \<Rightarrow> unit io" where
  "deleteCompletelyV4 env pg usr isRecursively =
     deleteCompletelyOperation [page_id pg] [path pg]"

definition deleteCompletely :: "env \<Rightarrow> page \<Rightarrow> user \<Rightarrow> bool \<Rightarrow> unit io" where
  "deleteCompletely env pg usr isRecursively =
     (if isTopPage (path pg) then io_throw ForbiddenToDeleteTopPage
      else if truthy (isEmpty pg) \<and> \<not> isRecursively then io_throw PageNotFound
      else if shouldUseV4Process env pg then deleteCompletelyV4 env pg usr isRecursively
      else
        io_bind (io_get (canOperate env isRecursively (Some (path pg)) None)) (\<lambda>canOp.
        if \<not> canOp then io_throw CannotOperateRightNow
        else
          io_seq
            (if isRecursively
             then updateDescendantCountOfAncestors (parent pg)
                    (if truthy (isEmpty pg) then - descendantCount pg
                     else - (descendantCount pg + 1)) True
             else
               io_bind (io_get (\<lambda>s. page_exists s (\<lambda>q. parent q = Some (page_id pg))))
                 (\<lambda>shouldReplace.
               io_bind (if shouldReplace
                        then replaceTargetWithPage env pg None NoReplacement False
                        else io_return (Some pg)) (\<lambda>pageToUpdateDescendantCount.
                 case pageToUpdateDescendantCount of
                   None \<Rightarrow> io_throw TypeError
                 | Some pu \<Rightarrow> updateDescendantCountOfAncestors (parent pu) (- 1) True)))
         (io_seq (deleteCompletelyOperation [page_id pg] [path pg])
         (io_seq (removeLeafEmptyPagesRecursively (parent pg))
                 (if isRecursively
                  then io_bind (PageOperation_create ''DeleteCompletely'' pg (path pg) None)
                         (\<lambda>_. io_return ())
                  else io_return ())))))"

definition deleteMultiplePages :: "env \<Rightarrow> page list \<Rightarrow> user \<Rightarrow> bool \<Rightarrow> bool \<Rightarrow> unit io" where
  "deleteMultiplePages env pagesToDelete usr isRecursively isCompletely =
     (if length pagesToDelete > LIMIT_FOR_MULTIPLE_PAGE_OP
      then io_throw (MaximumNumberOfPages LIMIT_FOR_MULTIPLE_PAGE_OP)
      else
        (let pgs = (if isRecursively then omitDuplicateAreaPageFromPages env pagesToDelete
                    else filter (\<lambda>p. \<not> truthy (isEmpty p)) pagesToDelete)
         in if isCompletely
            then io_mapM (\<lambda>pg. deleteCompletely env pg usr isRecursively) pgs
            else io_mapM (\<lambda>pg. io_bind (deletePage env pg usr isRecursively)
                                  (\<lambda>_. io_return ())) pgs))"

section \<open>Migration: normalizing parents\<close>

text \<open>
  An element of \<^verbatim>\<open>pathOrRegExps\<close> is a path or the regular expression
  \<^verbatim>\<open>^\<close> + escaped literal with the flag \<^verbatim>\<open>i\<close>.
\<close>

datatype path_or_regexp = PathString string | PrefixRegExp string

definition path_in :: "path_or_regexp list \<Rightarrow> string \<Rightarrow> bool" where
  "path_in xs pth =
     list_ex (\<lambda>x. case x of PathString p \<Rightarrow> pth = p
                           | PrefixRegExp lit \<Rightarrow> startsWith_ignoreCase lit pth) xs"

definition mergedFilter ::
  "path_or_regexp list \<Rightarrow> string list \<Rightarrow> (page \<Rightarrow> bool) \<Rightarrow> page \<Rightarrow> bool" where
  "mergedFilter pathOrRegExps publicPathsToNormalize grantFiltersByUser p =
     ((grantFiltersByUser p
       \<and> parent p = None \<and> status p = STATUS_PUBLISHED \<and> path p \<noteq> ''/'')
      \<and> ((0 < length pathOrRegExps \<and> path_in pathOrRegExps (path p))
         \<or> (0 < length publicPathsToNormalize \<and> path p \<in> set publicPathsToNormalize
             \<and> grant p = Some GRANT_PUBLIC)))"

text \<open>
  The regular expression for the pages one level below a parent path, with the parent
  path escaped and the flag \<^verbatim>\<open>i\<close>: \<^verbatim>\<open>^\<close> parent \<^verbatim>\<open>(\/[^/]+)\/?$\<close>.
\<close>

definition siblingsRegExp :: "string \<Rightarrow> rx" where
  "siblingsRegExp parentPathLiteral =
     RSeq RBol (foldr (\<lambda>c r. RSeq (RChar c) r) parentPathLiteral
       (RSeq (RSeq (RChar CHR ''/'') (RPlus (RClass True ''/'')))
          (RSeq (ROpt (RChar CHR ''/'')) REol)))"

fun uniq :: "'a list \<Rightarrow> 'a list" where
  "uniq [] = []"
| "uniq (x # xs) = x # uniq (filter (\<lambda>y. y \<noteq> x) xs)"

text \<open>
  One \<^verbatim>\<open>updateMany\<close> of a bulk write: the number of documents the filter matches, the
  number it changes, and the write.
\<close>

definition bulk_updateMany_parent ::
  "(page \<Rightarrow> bool) \<Rightarrow> object_id \<Rightarrow> (nat \<times> nat) io" where
  "bulk_updateMany_parent flt parentId = (\<lambda>s.
     Some (Returned (count_pages s flt,
                     count_pages s (\<lambda>q. flt q \<and> parent q \<noteq> Some parentId)),
           updateMany flt (\<lambda>q. q\<lparr>parent := Some parentId\<rparr>) s))"

fun bulkWrite_updateMany :: "((page \<Rightarrow> bool) \<times> object_id) list \<Rightarrow> (nat \<times> nat) io" where
  "bulkWrite_updateMany [] = io_return (0, 0)"
| "bulkWrite_updateMany ((flt, parentId) # ops) =
     io_bind (bulk_updateMany_parent flt parentId) (\<lambda>(nMatched, nModified).
     io_bind (bulkWrite_updateMany ops) (\<lambda>(m, n). io_return (nMatched + m, nModified + n)))"

text \<open>
  The \<^verbatim>\<open>write\<close> of the migration stream, for one batch of candidates; it gives
  \<^verbatim>\<open>nMatched\<close> and \<^verbatim>\<open>nModified\<close> of the bulk write that sets the parents.
\<close>

definition migratePages ::
  "env \<Rightarrow> string list \<Rightarrow> (page \<Rightarrow> bool) \<Rightarrow> user option \<Rightarrow> page list \<Rightarrow> (nat \<times> nat) io" where
  "migratePages env publicPathsToNormalize grantFiltersByUser usr batch =
     (let parentPaths = uniq (map (\<lambda>p. dirname (path p)) batch);
          pageIdsToNotDelete = map page_id batch;
          emptyPagePathsToDelete = map path batch;
          filterForApplicableAncestors = applicableAncestor publicPathsToNormalize
      in
      io_bind (io_get (\<lambda>s. find_pages s (\<lambda>q. isEmpty q = Some True
                  \<and> path q \<in> set emptyPagePathsToDelete
                  \<and> page_id q \<notin> set pageIdsToNotDelete))) (\<lambda>emptyPagesToDelete.
      io_seq (io_mapM (\<lambda>e. io_modify (updateOne (\<lambda>q. parent q = Some (page_id e))
                                        (\<lambda>q. q\<lparr>parent := None\<rparr>))) emptyPagesToDelete)
     (io_seq (removeEmptyPages pageIdsToNotDelete emptyPagePathsToDelete)
     (io_seq (createEmptyPagesByPaths env parentPaths usr False (Some filterForApplicableAncestors))
     (io_bind (io_get (\<lambda>s. find_pages s (\<lambda>q. grantFiltersByUser q
                  \<and> path q \<in> set parentPaths
                  \<and> applicableAncestor publicPathsToNormalize q))) (\<lambda>parents.
        bulkWrite_updateMany
          (map (\<lambda>par.
                  (\<lambda>q. rx_test True (siblingsRegExp (if path par = ''/'' then [] else path par)) (path q)
                        \<and> filterForApplicableAncestors q \<and> grantFiltersByUser q,
                   page_id par)) parents)))))))"

text \<open>
  The batches of one iteration, in order; \<^verbatim>\<open>shouldContinue\<close> becomes false when a
  bulk write modified and matched nothing.
\<close>

fun migratePagesStream ::
  "env \<Rightarrow> string list \<Rightarrow> (page \<Rightarrow> bool) \<Rightarrow> user option \<Rightarrow> page list list
     \<Rightarrow> nat \<times> bool \<Rightarrow> (nat \<times> bool) io" where
  "migratePagesStream env publicPaths grantFilter usr [] acc = io_return acc"
| "migratePagesStream env publicPaths grantFilter usr (batch # batches) acc =
     io_bind (migratePages env publicPaths grantFilter usr batch) (\<lambda>(nMatched, nModified).
       migratePagesStream env publicPaths grantFilter usr batches
         (fst acc + nModified,
          if nModified = 0 \<and> nMatched = 0 then False else snd acc))"

definition BATCH_SIZE :: nat where "BATCH_SIZE = 100"
definition PAGES_LIMIT :: nat where "PAGES_LIMIT = 1000"

text \<open>
  The candidates of one iteration: the documents the merged filter matches, and of
  them the first \<^verbatim>\<open>Math.floor(total * 0.3)\<close> when there are more than \<^verbatim>\<open>PAGES_LIMIT\<close>.
  For a count of documents the floor of the floating point product is the integer
  quotient of \<^verbatim>\<open>3 * total\<close> by 10.
\<close>

definition pagesToMigrate ::
  "path_or_regexp list \<Rightarrow> string list \<Rightarrow> (page \<Rightarrow> bool) \<Rightarrow> db \<Rightarrow> page list" where
  "pagesToMigrate pathOrRegExps publicPathsToNormalize grantFiltersByUser s =
     (let matching = find_pages s (mergedFilter pathOrRegExps publicPathsToNormalize grantFiltersByUser);
          total = length matching
      in if total > PAGES_LIMIT then take (total * 3 div 10) matching else matching)"

text \<open>
  \<^verbatim>\<open>_normalizeParentRecursively\<close>: one iteration and the recursive call. An empty
  \<^verbatim>\<open>$or\<close> is refused by the database. The function returns nothing; the model returns
  the count and the \<^verbatim>\<open>shouldContinue\<close> of its last iteration, which the code reports
  through the socket.
\<close>

partial_function (option) normalizeParentRecursively_loop ::
  "env \<Rightarrow> path_or_regexp list \<Rightarrow> string list \<Rightarrow> (page \<Rightarrow> bool) \<Rightarrow> user option
     \<Rightarrow> nat \<Rightarrow> db \<Rightarrow> ((nat \<times> bool) result \<times> db) option" where
  "normalizeParentRecursively_loop env pathOrRegExps publicPathsToNormalize grantFiltersByUser usr
     count s =
     (if pathOrRegExps = [] \<and> publicPathsToNormalize = [] then Some (Threw (External ''$or''), s)
      else
        case migratePagesStream env publicPathsToNormalize grantFiltersByUser usr
               (createBatchStream BATCH_SIZE
                  (pagesToMigrate pathOrRegExps publicPathsToNormalize grantFiltersByUser s))
               (count, True) s of
          None \<Rightarrow> None
        | Some (Threw e, s') \<Rightarrow> Some (Threw e, s')
        | Some (Returned (nextCount, shouldContinue), s') \<Rightarrow>
            if page_exists s' (mergedFilter pathOrRegExps publicPathsToNormalize grantFiltersByUser)
               \<and> shouldContinue
            then normalizeParentRecursively_loop env pathOrRegExps publicPathsToNormalize
                   grantFiltersByUser usr nextCount s'
            else Some (Returned (nextCount, shouldContinue), s'))"

declare normalizeParentRecursively_loop.simps [code]

definition normalizeParentRecursively :: "env \<Rightarrow> string list \<Rightarrow> user option \<Rightarrow> (nat \<times> bool) io" where
  "normalizeParentRecursively env paths usr =
     (let ancestorPaths = concat (map (collectAncestorPaths env) paths);
          pathAndRegExpsToNormalize =
            map (\<lambda>p. PrefixRegExp (addTrailingSlash env p)) paths @ map PathString paths;
          grantFiltersByUser = generateGrantCondition usr (userGroupsOf env usr) False False False
      in normalizeParentRecursively_loop env pathAndRegExpsToNormalize ancestorPaths
           grantFiltersByUser usr 0)"

definition updateDescendantCountOfSelfAndDescendants :: "env \<Rightarrow> string \<Rightarrow> unit io" where
  "updateDescendantCountOfSelfAndDescendants env pth =
     io_bind (io_get (\<lambda>s. sortPagesByDescPath (find_pages s (\<lambda>q. isMigrated q
                \<and> (if isTopPage pth then True
                    else path q = normalizePath env pth
                         \<or> startsWith (addTrailingSlash env pth) (path q))))))
       (\<lambda>aggregatedPages.
          io_mapM (\<lambda>batch.
              io_mapM (\<lambda>document.
                  io_bind (io_get (\<lambda>s. recountDescendantCount s (page_id document))) (\<lambda>count.
                  io_bind (findByIdAndUpdate (page_id document) (\<lambda>q. q\<lparr>descendantCount := count\<rparr>))
                    (\<lambda>_. io_return ()))) batch)
            (createBatchStream 200 aggregatedPages))"

definition normalizeParentRecursivelySubOperation ::
  "env \<Rightarrow> page \<Rightarrow> user \<Rightarrow> object_id \<Rightarrow> int \<Rightarrow> unit io" where
  "normalizeParentRecursivelySubOperation env pg usr pageOpId prevDescendantCount =
     io_seq
       (io_catch
          (io_seq (updateDescendantCountOfSelfAndDescendants env (path pg))
             (io_bind (io_get (findByIdAndViewer env (page_id pg) (Some usr))) (\<lambda>pageAfter.
                case pageAfter of
                  None \<Rightarrow> io_throw PageNotFoundAfterUpdatingDescendantCount
                | Some pa \<Rightarrow>
                    updateDescendantCountOfAncestors (Some (page_id pg))
                      ((descendantCount pa - prevDescendantCount) + 1) False)))
          (\<lambda>err. io_throw (FailedToUpdateDescendantCount err)))
       (PageOperation_findByIdAndDelete pageOpId)"

definition normalizeParentRecursivelyMainOperation ::
  "env \<Rightarrow> page \<Rightarrow> user \<Rightarrow> object_id \<Rightarrow> unit io" where
  "normalizeParentRecursivelyMainOperation env pg usr pageOpId =
     io_bind (io_get (\<lambda>s. findOne s isMigrated)) (\<lambda>exPage.
     let prevDescendantCount = (case exPage of None \<Rightarrow> 0 | Some ex \<Rightarrow> descendantCount ex) in
     io_bind (normalizeParentRecursively env [path pg] (Some usr)) (\<lambda>_.
     io_bind (findByIdAndUpdatePageActionStage pageOpId ''Sub'') (\<lambda>pageOp.
       case pageOp of
         None \<Rightarrow> io_throw PageOperationDocumentNotFound
       | Some found \<Rightarrow>
           normalizeParentRecursivelySubOperation env pg usr (op_id found) prevDescendantCount)))"

definition normalizeParentRecursivelyByPages :: "env \<Rightarrow> page list option \<Rightarrow> user \<Rightarrow> unit io" where
  "normalizeParentRecursivelyByPages env pagesOrNull usr =
     (case pagesOrNull of
        None \<Rightarrow> io_return ()
      | Some pgs \<Rightarrow>
          if length pgs = 0 then io_return ()
          else if length pgs > LIMIT_FOR_MULTIPLE_PAGE_OP
          then io_throw (MaximumNumberOfPageIds LIMIT_FOR_MULTIPLE_PAGE_OP)
          else
            (let pagesToNormalize = omitDuplicateAreaPageFromPages env pgs in
             io_bind (io_get (separateNormalizableAndNotNormalizablePages env usr pagesToNormalize))
               (\<lambda>separated.
                  case separated of
                    Inl err \<Rightarrow> io_throw (External err)
                  | Inr (normalizablePages, nonNormalizablePages) \<Rightarrow>
                      if length normalizablePages = 0 then io_return ()
                      else
                        io_mapM (\<lambda>pg.
                            io_bind (io_get (canOperate env True (Some (path pg)) (Some (path pg))))
                              (\<lambda>canOp.
                            if \<not> canOp then io_throw CannotOperateRightNow
                            else
                              io_bind (PageOperation_create ''NormalizeParent'' pg (path pg)
                                         (Some (path pg))) (\<lambda>pageOpId.
                                normalizeParentRecursivelyMainOperation env pg usr pageOpId)))
                          normalizablePages)))"

section \<open>Running operations\<close>

lemma io_bind_get: "io_bind (io_get q) f s = f (q s) s"
  by (simp add: io_bind_def io_get_def)

lemma io_throw_run: "io_throw e s = Some (Threw e, s)"
  by (simp add: io_throw_def)

lemma io_return_run: "io_return x s = Some (Returned x, s)"
  by (simp add: io_return_def)

lemma io_seq_throw: "io_seq (io_throw e) n s = Some (Threw e, s)"
  by (simp add: io_seq_def io_bind_def io_throw_def)

lemma io_seq_return: "io_seq (io_return x) n s = n s"
  by (simp add: io_seq_def io_bind_def io_return_def)

lemma io_bind_return: "io_bind (io_return x) f s = f x s"
  by (simp add: io_bind_def io_return_def)

lemma io_bind_throw: "io_bind (io_throw e) f s = Some (Threw e, s)"
  by (simp add: io_bind_def io_throw_def)

lemmas io_run =
  io_bind_get io_throw_run io_return_run io_seq_throw io_seq_return io_bind_return io_bind_throw

section \<open>Preconditions of rename\<close>

text \<open>
  C7. When a page exists at the destination path, or the target is the top page,
  \<^verbatim>\<open>renamePage\<close> throws and leaves the database as it was: no page, redirect or
  operation-log record is created or changed. The two checks come first; the
  existence check is the first of the two.
\<close>

theorem renamePage_rejects_before_any_write:
  assumes "page_exists s (\<lambda>q. path q = newPagePath) \<or> isTopPage (path pg)"
  shows "renamePage env pg newPagePath usr options s
         = Some (Threw (if page_exists s (\<lambda>q. path q = newPagePath)
                        then PageAlreadyExistsAt else ForbiddenToRenameTopPage), s)"
  using assms by (auto simp: renamePage_def io_run)

section \<open>An environment and a tree for the examples\<close>

text \<open>
  The examples run the operations with collaborators that agree to everything: the
  configuration is v5 compatible, no operation is in flight, the XSS filter changes
  nothing, every grant is normalized, the trash is \<^verbatim>\<open>/trash\<close>, and \<^verbatim>\<open>applyScope\<close>
  assigns the grant with the scoping data of owner and group.
\<close>

definition example_applyScope :: "user \<Rightarrow> nat option \<Rightarrow> object_id option \<Rightarrow> page \<Rightarrow> page" where
  "example_applyScope u g gid p =
     p\<lparr>grant := (case js_or g (Some GRANT_PUBLIC) of None \<Rightarrow> Some GRANT_PUBLIC | Some n \<Rightarrow> Some n),
       grantedUsers := (if g = Some GRANT_OWNER \<or> g = Some GRANT_SPECIFIED then [u] else []),
       grantedGroup := (if g = Some GRANT_USER_GROUP then gid else None)\<rparr>"

fun example_collectAncestorPaths :: "nat \<Rightarrow> string \<Rightarrow> string list" where
  "example_collectAncestorPaths 0 p = []"
| "example_collectAncestorPaths (Suc n) p =
     (if isTopPage p then [] else dirname p # example_collectAncestorPaths n (dirname p))"

definition example_addTrailingSlash :: "string \<Rightarrow> string" where
  "example_addTrailingSlash p = (if p \<noteq> [] \<and> last p = CHR ''/'' then p else p @ ''/'')"

definition example_env :: env where
  "example_env =
     \<lparr>servicesReady = True,
      isV5Compatible = True,
      canOperate = (\<lambda>_ _ _ _. True),
      xss_process = (\<lambda>p. p),
      isGrantNormalized = (\<lambda>_ _ _ _ _ _ _. Inr True),
      separateNormalizableAndNotNormalizablePages = (\<lambda>_ ps _. Inr (ps, [])),
      findAllUserGroupIdsRelatedToUser = (\<lambda>_. []),
      applyScope = example_applyScope,
      createV4 = (\<lambda>_ _ _ _. io_throw (External ''createV4'')),
      updatePageV4 = (\<lambda>_ _ _ _ _. io_throw (External ''updatePageV4'')),
      getDeletedPageName = (\<lambda>p. ''/trash'' @ p),
      isTrashPage = (\<lambda>p. p = ''/trash'' \<or> startsWith ''/trash/'' p),
      isMovablePage = (\<lambda>p. \<not> isTopPage p \<and> \<not> (p = ''/trash'' \<or> startsWith ''/trash/'' p)),
      canMoveByPath = (\<lambda>_ _. True),
      omitDuplicateAreaPageFromPages = (\<lambda>ps. ps),
      collectAncestorPaths = (\<lambda>p. example_collectAncestorPaths (length p) p),
      addTrailingSlash = example_addTrailingSlash,
      normalizePath = (\<lambda>p. p),
      findByIdAndViewer = (\<lambda>i _ s. findById s (Some i)),
      viewerCanEdit = (\<lambda>_ _. True),
      undefinedInUpdate = OmitsKey\<rparr>"

text \<open>
  The tree of the examples: the root, the page \<^verbatim>\<open>/a\<close> under it, and \<^verbatim>\<open>/a/b\<close> under
  \<^verbatim>\<open>/a\<close>, none of them empty, with their descendant counts.
\<close>

definition page_root :: page where "page_root = stored_page 1 ''/'' None False 2"
definition page_a :: page where "page_a = stored_page 2 ''/a'' (Some 1) False 1"
definition page_a_b :: page where "page_a_b = stored_page 3 ''/a/b'' (Some 2) False 0"

definition tree_db :: db where
  "tree_db = \<lparr>pages = [page_root, page_a, page_a_b], redirects = [], operations = [],
              next_id = 4\<rparr>"

definition plain_rename :: rename_options where
  "plain_rename = \<lparr>isMoveMode = False, createRedirectPage = False, updateMetadata = False,
                   renameRecursively = False\<rparr>"

lemmas example_defs =
  example_env_def tree_db_def page_root_def page_a_def page_a_b_def stored_page_def new_Page_def
  plain_rename_def example_applyScope_def example_addTrailingSlash_def

theorem renamePage_rejects_before_any_write_witness:
  "(page_exists tree_db (\<lambda>q. path q = ''/a/b'') \<or> isTopPage (path page_a))
   \<and> renamePage example_env page_a ''/a/b'' 7 plain_rename tree_db
       = Some (Threw PageAlreadyExistsAt, tree_db)"
proof -
  have h: "page_exists tree_db (\<lambda>q. path q = ''/a/b'')"
    by (simp add: page_exists_def example_defs)
  from renamePage_rejects_before_any_write [of tree_db "''/a/b''" page_a example_env 7 plain_rename] h
  show ?thesis by simp
qed

section \<open>The limit of the bulk operations\<close>

text \<open>
  \<^verbatim>\<open>io_never m B\<close>: the operation \<^verbatim>\<open>m\<close> throws no error of the kind \<^verbatim>\<open>B\<close>, from any
  database.
\<close>

definition io_never :: "'a io \<Rightarrow> (error \<Rightarrow> bool) \<Rightarrow> bool" where
  "io_never m B = (\<forall>s e s'. m s = Some (Threw e, s') \<longrightarrow> \<not> B e)"

lemma io_neverD: "io_never m B \<Longrightarrow> m s = Some (Threw e, s') \<Longrightarrow> \<not> B e"
  by (auto simp: io_never_def)

lemma io_never_return: "io_never (io_return x) B"
  by (simp add: io_never_def io_return_def)

lemma io_never_throw: "\<not> B e \<Longrightarrow> io_never (io_throw e) B"
  by (simp add: io_never_def io_throw_def)

lemma io_never_get: "io_never (io_get q) B"
  by (simp add: io_never_def io_get_def)

lemma io_never_modify: "io_never (io_modify f) B"
  by (simp add: io_never_def io_modify_def)

lemma io_never_bind:
  "io_never m B \<Longrightarrow> (\<And>x. io_never (f x) B) \<Longrightarrow> io_never (io_bind m f) B"
  unfolding io_never_def io_bind_def
  by (auto split: option.splits result.splits prod.splits)

lemma io_never_seq: "io_never m B \<Longrightarrow> io_never n B \<Longrightarrow> io_never (io_seq m n) B"
  by (simp add: io_seq_def io_never_bind)

lemma io_never_catch:
  assumes m: "io_never m B" and h: "\<And>e. \<not> B e \<Longrightarrow> io_never (h e) B"
  shows "io_never (io_catch m h) B"
  unfolding io_never_def
proof (intro allI impI)
  fix s e s'
  assume run: "io_catch m h s = Some (Threw e, s')"
  then obtain e0 s0 where m0: "m s = Some (Threw e0, s0)" and h0: "h e0 s0 = Some (Threw e, s')"
    by (auto simp: io_catch_def split: option.splits result.splits prod.splits)
  from io_neverD [OF m m0] have "\<not> B e0" .
  from io_neverD [OF h [OF this] h0] show "\<not> B e" .
qed

lemma io_never_mapM: "(\<And>x. io_never (f x) B) \<Longrightarrow> io_never (io_mapM f xs) B"
  by (induction xs) (simp_all add: io_never_return io_never_seq)

lemma io_never_of_option: "io_never (io_of_option r) B"
  by (simp add: io_never_def io_of_option_def split: option.splits)

lemma io_never_if:
  "(c \<Longrightarrow> io_never a B) \<Longrightarrow> (\<not> c \<Longrightarrow> io_never b B) \<Longrightarrow> io_never (if c then a else b) B"
  by simp

lemmas io_never_rules =
  io_never_return io_never_get io_never_modify io_never_bind io_never_seq io_never_catch
  io_never_mapM io_never_of_option io_never_if

definition is_limit_error :: "error \<Rightarrow> bool" where
  "is_limit_error e =
     (case e of MaximumNumberOfPages _ \<Rightarrow> True | MaximumNumberOfPageIds _ \<Rightarrow> True | _ \<Rightarrow> False)"

lemma insert_page_never: "io_never (insert_page mk) B"
  by (simp add: io_never_def insert_page_def Let_def)

lemma insertMany_never: "io_never (insertMany mks) B"
  by (induction mks) (auto intro!: io_never_rules insert_page_never)

lemma createEmptyPage_never: "\<not> B ParentMustNotBeNull \<Longrightarrow> io_never (createEmptyPage p par c n) B"
  by (auto simp: createEmptyPage_def intro!: io_never_throw insert_page_never split: option.splits)

lemma createEmptyPagesByPaths_never: "io_never (createEmptyPagesByPaths env ps u b f) B"
  by (auto simp: createEmptyPagesByPaths_def Let_def intro!: io_never_rules insertMany_never)

lemma castUpdate_never: "\<not> B (External ''bulkWrite'') \<Longrightarrow> io_never (castUpdate env v) B"
  by (auto simp: castUpdate_def intro!: io_never_rules io_never_throw split: option.splits)

lemma replaceTargetWithPage_never:
  "\<not> B ParentToUpdateDoesNotExist \<Longrightarrow> \<not> B ParentMustNotBeNull \<Longrightarrow> \<not> B (External ''bulkWrite'')
   \<Longrightarrow> io_never (replaceTargetWithPage env ex op r d) B"
  by (auto simp: replaceTargetWithPage_def
           intro!: io_never_rules io_never_throw createEmptyPage_never castUpdate_never
           split: option.splits replacement.splits)

lemma findAncestorsUsingParentRecursively_never:
  "\<not> B TargetNotFound \<Longrightarrow> io_never (findAncestorsUsingParentRecursively i b) B"
  by (auto simp: io_never_def findAncestorsUsingParentRecursively_def split: option.splits)

lemma updateDescendantCountOfAncestors_never:
  "\<not> B TargetNotFound \<Longrightarrow> io_never (updateDescendantCountOfAncestors i n b) B"
  by (auto simp: updateDescendantCountOfAncestors_def incrementDescendantCountOfPageIds_def
           intro!: io_never_rules findAncestorsUsingParentRecursively_never)

lemma removeLeafEmptyPagesRecursively_never: "io_never (removeLeafEmptyPagesRecursively i) B"
  by (auto simp: io_never_def removeLeafEmptyPagesRecursively_def split: option.splits if_splits)

lemma findByIdAndUpdate_never: "io_never (findByIdAndUpdate i f) B"
  by (auto simp: io_never_def findByIdAndUpdate_def split: option.splits)

lemma PageRedirect_create_never: "\<not> B DuplicateKey \<Longrightarrow> io_never (PageRedirect_create f t) B"
  by (auto simp: io_never_def PageRedirect_create_def split: if_splits)

lemma PageOperation_create_never: "io_never (PageOperation_create a p f t) B"
  by (simp add: io_never_def PageOperation_create_def)

lemma findByIdAndUpdatePageActionStage_never: "io_never (findByIdAndUpdatePageActionStage i st) B"
  by (auto simp: io_never_def findByIdAndUpdatePageActionStage_def split: option.splits)

lemma deleteNonEmptyTarget_never:
  "\<not> is_limit_error DuplicateKey \<Longrightarrow> io_never (deleteNonEmptyTarget env pg usr) is_limit_error"
  by (auto simp: deleteNonEmptyTarget_def Let_def
           intro!: io_never_rules io_never_throw findByIdAndUpdate_never PageRedirect_create_never)

lemma deletePageV4_never: "io_never (deletePageV4 env pg usr r) is_limit_error"
  by (auto simp: deletePageV4_def Let_def is_limit_error_def
           intro!: io_never_rules io_never_throw findByIdAndUpdate_never PageRedirect_create_never)

lemma deletePage_never: "io_never (deletePage env pg usr r) is_limit_error"
  unfolding deletePage_def Let_def deleteEmptyTarget_def
  by (intro io_never_rules io_never_throw deletePageV4_never deleteNonEmptyTarget_never
        replaceTargetWithPage_never updateDescendantCountOfAncestors_never
        removeLeafEmptyPagesRecursively_never PageOperation_create_never)
     (simp_all add: is_limit_error_def)

lemma deleteCompletelyOperation_never: "io_never (deleteCompletelyOperation is ps) B"
  by (auto simp: deleteCompletelyOperation_def intro!: io_never_rules)

lemma deleteCompletely_never: "io_never (deleteCompletely env pg usr r) is_limit_error"
  unfolding deleteCompletely_def Let_def deleteCompletelyV4_def
  by (intro io_never_rules io_never_throw deleteCompletelyOperation_never
        replaceTargetWithPage_never updateDescendantCountOfAncestors_never
        removeLeafEmptyPagesRecursively_never PageOperation_create_never)
     (auto simp: is_limit_error_def
           intro!: io_never_rules io_never_throw updateDescendantCountOfAncestors_never
           split: option.splits)

lemma bulk_updateMany_parent_never: "io_never (bulk_updateMany_parent flt i) B"
  by (simp add: io_never_def bulk_updateMany_parent_def)

lemma bulkWrite_updateMany_never: "io_never (bulkWrite_updateMany ops) B"
proof (induction ops)
  case Nil
  show ?case by (simp add: io_never_return)
next
  case (Cons a ops)
  obtain flt i where a: "a = (flt, i)" by (cases a)
  show ?case
    unfolding a bulkWrite_updateMany.simps
    by (intro io_never_bind bulk_updateMany_parent_never)
       (auto intro!: io_never_bind io_never_return Cons.IH)
qed

lemma removeEmptyPages_never: "io_never (removeEmptyPages is ps) B"
  by (simp add: removeEmptyPages_def io_never_modify)

lemma migratePages_never: "io_never (migratePages env pub gf usr batch) B"
  unfolding migratePages_def Let_def
  by (intro io_never_rules removeEmptyPages_never createEmptyPagesByPaths_never
        bulkWrite_updateMany_never)

lemma migratePagesStream_never: "io_never (migratePagesStream env pub gf usr batches acc) B"
proof (induction batches arbitrary: acc)
  case Nil
  show ?case by (simp add: io_never_return)
next
  case (Cons b batches)
  show ?case
    unfolding migratePagesStream.simps
    by (intro io_never_bind migratePages_never) (auto intro!: Cons.IH)
qed

lemma normalizeParentRecursively_loop_never_aux:
  "normalizeParentRecursively_loop env por pub gf usr n s = Some y
   \<Longrightarrow> (\<forall>e s'. y = (Threw e, s') \<longrightarrow> \<not> is_limit_error e)"
proof (induction rule: normalizeParentRecursively_loop.raw_induct [rotated 1, consumes 1])
  case (1 loop env por pub gf usr n s y)
  show ?case
  proof (cases "por = [] \<and> pub = []")
    case True
    with 1(2) show ?thesis by (auto simp: is_limit_error_def)
  next
    case False
    let ?run = "migratePagesStream env pub gf usr
                  (createBatchStream BATCH_SIZE (pagesToMigrate por pub gf s)) (n, True) s"
    show ?thesis
    proof (cases ?run)
      case None
      with 1(2) False show ?thesis by simp
    next
      case (Some rs)
      obtain r s1 where rs: "rs = (r, s1)" by (cases rs)
      show ?thesis
      proof (cases r)
        case (Threw e1)
        with 1(2) False Some rs have y: "y = (Threw e1, s1)" by auto
        from io_neverD [OF migratePagesStream_never] Some rs Threw
        have "\<not> is_limit_error e1" by blast
        with y show ?thesis by simp
      next
        case (Returned v)
        obtain c b where v: "v = (c, b)" by (cases v)
        show ?thesis
        proof (cases "page_exists s1 (mergedFilter por pub gf) \<and> b")
          case True
          with 1(2) False Some rs Returned v
          have "loop env por pub gf usr c s1 = Some y" by auto
          from 1(1) [OF this] show ?thesis .
        next
          case F: False
          with 1(2) False Some rs Returned v have "y = (Returned (c, b), s1)" by auto
          then show ?thesis by simp
        qed
      qed
    qed
  qed
qed

lemma normalizeParentRecursively_loop_never:
  assumes "normalizeParentRecursively_loop env por pub gf usr n s = Some (Threw e, s')"
  shows "\<not> is_limit_error e"
  using normalizeParentRecursively_loop_never_aux [OF assms] by simp

lemma normalizeParentRecursively_never:
  "io_never (normalizeParentRecursively env paths usr) is_limit_error"
  unfolding io_never_def normalizeParentRecursively_def Let_def
  using normalizeParentRecursively_loop_never by blast

lemma updateDescendantCountOfSelfAndDescendants_never:
  "io_never (updateDescendantCountOfSelfAndDescendants env pth) B"
  unfolding updateDescendantCountOfSelfAndDescendants_def
  by (intro io_never_rules findByIdAndUpdate_never)

lemma normalizeParentRecursivelySubOperation_never:
  "io_never (normalizeParentRecursivelySubOperation env pg usr i n) is_limit_error"
  unfolding normalizeParentRecursivelySubOperation_def PageOperation_findByIdAndDelete_def
  by (intro io_never_rules io_never_throw updateDescendantCountOfSelfAndDescendants_never)
     (auto simp: is_limit_error_def
           intro!: io_never_throw updateDescendantCountOfAncestors_never split: option.splits)

lemma normalizeParentRecursivelyMainOperation_never:
  "io_never (normalizeParentRecursivelyMainOperation env pg usr i) is_limit_error"
  unfolding normalizeParentRecursivelyMainOperation_def Let_def
  by (intro io_never_rules normalizeParentRecursively_never
        findByIdAndUpdatePageActionStage_never)
     (auto simp: is_limit_error_def
           intro!: io_never_throw normalizeParentRecursivelySubOperation_never
           split: option.splits)

lemma deleteMultiplePages_within_limit:
  assumes "length pagesToDelete \<le> LIMIT_FOR_MULTIPLE_PAGE_OP"
  shows "io_never (deleteMultiplePages env pagesToDelete usr isRecursively isCompletely)
           is_limit_error"
  using assms unfolding deleteMultiplePages_def Let_def
  by (auto intro!: io_never_rules deleteCompletely_never deletePage_never)

lemma normalizeParentRecursivelyByPages_within_limit:
  assumes "length pgs \<le> LIMIT_FOR_MULTIPLE_PAGE_OP"
  shows "io_never (normalizeParentRecursivelyByPages env (Some pgs) usr) is_limit_error"
  using assms unfolding normalizeParentRecursivelyByPages_def Let_def
  by (auto simp: is_limit_error_def
           intro!: io_never_rules io_never_throw PageOperation_create_never
                   normalizeParentRecursivelyMainOperation_never
           split: sum.splits prod.splits)

text \<open>
  C8. A call of \<^verbatim>\<open>deleteMultiplePages\<close> or \<^verbatim>\<open>normalizeParentRecursivelyByPages\<close> with
  more than 20 pages throws the error of the limit and leaves the database as it was:
  no page is processed. A call with 20 pages or fewer never ends in an error of the
  limit, whatever else it does.
\<close>

theorem bulk_operations_limit_20:
  "(length ps1 > 20 \<longrightarrow>
      deleteMultiplePages env ps1 usr isRecursively isCompletely s
        = Some (Threw (MaximumNumberOfPages 20), s))
   \<and> (length ps2 > 20 \<longrightarrow>
      normalizeParentRecursivelyByPages env (Some ps2) usr s
        = Some (Threw (MaximumNumberOfPageIds 20), s))
   \<and> (length ps3 \<le> 20 \<longrightarrow>
      (\<forall>e s'. deleteMultiplePages env ps3 usr isRecursively isCompletely s = Some (Threw e, s')
          \<longrightarrow> (\<forall>n. e \<noteq> MaximumNumberOfPages n \<and> e \<noteq> MaximumNumberOfPageIds n)))
   \<and> (length ps4 \<le> 20 \<longrightarrow>
      (\<forall>e s'. normalizeParentRecursivelyByPages env (Some ps4) usr s = Some (Threw e, s')
          \<longrightarrow> (\<forall>n. e \<noteq> MaximumNumberOfPages n \<and> e \<noteq> MaximumNumberOfPageIds n)))"
proof -
  have over1: "length ps1 > 20 \<longrightarrow>
      deleteMultiplePages env ps1 usr isRecursively isCompletely s
        = Some (Threw (MaximumNumberOfPages 20), s)"
    by (simp add: deleteMultiplePages_def LIMIT_FOR_MULTIPLE_PAGE_OP_def io_run)
  have over2: "length ps2 > 20 \<longrightarrow>
      normalizeParentRecursivelyByPages env (Some ps2) usr s
        = Some (Threw (MaximumNumberOfPageIds 20), s)"
    by (auto simp: normalizeParentRecursivelyByPages_def LIMIT_FOR_MULTIPLE_PAGE_OP_def io_run)
  have lim: "\<not> is_limit_error e \<Longrightarrow> e \<noteq> MaximumNumberOfPages n \<and> e \<noteq> MaximumNumberOfPageIds n"
    for e n
    by (auto simp: is_limit_error_def)
  have never1: "io_never (deleteMultiplePages env ps3 usr isRecursively isCompletely) is_limit_error"
    if "length ps3 \<le> 20"
    using that by (intro deleteMultiplePages_within_limit) (simp add: LIMIT_FOR_MULTIPLE_PAGE_OP_def)
  have within1: "length ps3 \<le> 20 \<longrightarrow>
      (\<forall>e s'. deleteMultiplePages env ps3 usr isRecursively isCompletely s = Some (Threw e, s')
          \<longrightarrow> (\<forall>n. e \<noteq> MaximumNumberOfPages n \<and> e \<noteq> MaximumNumberOfPageIds n))"
    using io_neverD [OF never1] lim by blast
  have never2: "io_never (normalizeParentRecursivelyByPages env (Some ps4) usr) is_limit_error"
    if "length ps4 \<le> 20"
    using that
    by (intro normalizeParentRecursivelyByPages_within_limit)
       (simp add: LIMIT_FOR_MULTIPLE_PAGE_OP_def)
  have within2: "length ps4 \<le> 20 \<longrightarrow>
      (\<forall>e s'. normalizeParentRecursivelyByPages env (Some ps4) usr s = Some (Threw e, s')
          \<longrightarrow> (\<forall>n. e \<noteq> MaximumNumberOfPages n \<and> e \<noteq> MaximumNumberOfPageIds n))"
    using io_neverD [OF never2] lim by blast
  from over1 over2 within1 within2 show ?thesis by blast
qed

theorem bulk_operations_limit_20_witness:
  "length (replicate 21 page_a_b) > 20
   \<and> deleteMultiplePages example_env (replicate 21 page_a_b) 7 False False tree_db
       = Some (Threw (MaximumNumberOfPages 20), tree_db)
   \<and> normalizeParentRecursivelyByPages example_env (Some (replicate 21 page_a_b)) 7 tree_db
       = Some (Threw (MaximumNumberOfPageIds 20), tree_db)
   \<and> length (replicate 20 page_a_b) \<le> 20
   \<and> deleteMultiplePages example_env (replicate 20 page_a_b) 7 False False tree_db
       \<noteq> Some (Threw (MaximumNumberOfPages 20), tree_db)
   \<and> normalizeParentRecursivelyByPages example_env (Some (replicate 20 page_a_b)) 7 tree_db
       \<noteq> Some (Threw (MaximumNumberOfPageIds 20), tree_db)"
  using bulk_operations_limit_20 [of "replicate 21 page_a_b" example_env 7 False False tree_db
          "replicate 21 page_a_b" "replicate 20 page_a_b" "replicate 20 page_a_b"]
  by auto

section \<open>The grant check precedes every write\<close>




















section \<open>The stored document after create and updatePage\<close>

lemma find_map_id:
  "(\<And>q. page_id (f q) = page_id q) \<Longrightarrow>
   find (\<lambda>p. page_id p = j) (map f ps) = map_option f (find (\<lambda>p. page_id p = j) ps)"
  by (induction ps) simp_all

lemma findById_updateMany:
  assumes "\<And>q. page_id (f q) = page_id q"
  shows "findById (updateMany P f s) i = map_option (\<lambda>p. if P p then f p else p) (findById s i)"
proof (cases i)
  case None
  then show ?thesis by (simp add: findById_def)
next
  case (Some j)
  have "find (\<lambda>p. page_id p = j) (map (\<lambda>p. if P p then f p else p) (pages s))
        = map_option (\<lambda>p. if P p then f p else p) (find (\<lambda>p. page_id p = j) (pages s))"
    by (rule find_map_id) (simp add: assms)
  with Some show ?thesis by (simp add: findById_def updateMany_def)
qed

lemma find_update_first_same:
  "list_ex (\<lambda>q. page_id q = page_id p) ps \<Longrightarrow>
   find (\<lambda>q. page_id q = page_id p) (update_first (\<lambda>q. page_id q = page_id p) (\<lambda>_. p) ps) = Some p"
  by (induction ps) auto

lemma find_append_new:
  "\<not> list_ex P ps \<Longrightarrow> P p \<Longrightarrow> find P (ps @ [p]) = Some p"
  by (induction ps) auto

lemma findById_save: "findById (save p s) (Some (page_id p)) = Some p"
  by (simp add: findById_def save_def updateOne_def find_update_first_same find_append_new)

lemma findById_redirects: "findById (s\<lparr>redirects := r\<rparr>) i = findById s i"
  by (simp add: findById_def split: option.splits)

text \<open>
  \<^verbatim>\<open>updateDescendantCountOfAncestors\<close> writes nothing but the \<^verbatim>\<open>descendantCount\<close> of
  the pages whose ids the walk has collected.
\<close>

lemma io_post_updateDescendantCountOfAncestors_frame:
  assumes "\<And>ids. Q () (updateMany (\<lambda>q. page_id q \<in> ids)
                          (\<lambda>q. q\<lparr>descendantCount := descendantCount q + n\<rparr>) s)"
  shows "io_post (updateDescendantCountOfAncestors i n b) s Q"
  using assms
  by (auto simp: io_post_def updateDescendantCountOfAncestors_def io_bind_def
        findAncestorsUsingParentRecursively_def incrementDescendantCountOfPageIds_def
        io_modify_def split: option.splits)

text \<open>
  \<^verbatim>\<open>stored_as s pg\<close>: the document stored under the id of \<^verbatim>\<open>pg\<close> is \<^verbatim>\<open>pg\<close> in every
  field, \<^verbatim>\<open>descendantCount\<close> apart (the counts are written by separate updates after the
  document is saved).
\<close>

definition stored_as :: "db \<Rightarrow> page \<Rightarrow> bool" where
  "stored_as s pg =
     (case findById s (Some (page_id pg)) of
        None \<Rightarrow> False
      | Some q \<Rightarrow> q\<lparr>descendantCount := descendantCount pg\<rparr> = pg)"

lemma stored_as_final:
  "stored_as (updateMany P (\<lambda>q. q\<lparr>descendantCount := c q\<rparr>) (save sv t)) sv"
  using findById_save [of sv t]
  by (simp add: stored_as_def findById_updateMany)

lemmas io_post_rules_frame =
  io_post_return io_post_throw io_post_get io_post_modify io_post_bind io_post_seq
  io_post_fresh_id io_post_pushRevision io_post_validateGrant
  io_post_updateDescendantCountOfAncestors_frame io_post_removeLeafEmptyPagesRecursively
  io_post_getParentAndFillAncestors io_post_createEmptyPage

lemma create_top_page_stored:
  assumes "isV5Compatible env" "isTopPage (xss_process env path0)"
    and ap: "applyScope_sets_grant env"
  shows "io_post (create env path0 body usr options) s
           (\<lambda>saved s'. path saved = xss_process env path0
                        \<and> grant saved = Some GRANT_PUBLIC \<and> parent saved = None
                        \<and> isEmpty saved = Some False \<and> status saved = STATUS_PUBLISHED
                        \<and> revision saved = Some body
                        \<and> creator saved = Some usr \<and> lastUpdateUser saved = Some usr
                        \<and> stored_as s' saved)"
  using assms(1,2)
  unfolding create_def Let_def
  by (auto intro!: io_post_rules_frame stored_as_final
        simp: applyScope_fields [OF ap] js_or_def new_Page_def
              GRANT_PUBLIC_def GRANT_RESTRICTED_def GRANT_OWNER_def deleteRedirectFrom_def
        split: option.splits)

text \<open>
  C10. \<^verbatim>\<open>Page.create\<close> for the top page path (v5 process): the grant requested in the
  options has no effect on the run. The page it returns is the page at the top page
  path (the path given, after the XSS filter), published and not empty, with the body
  as revision and the user as creator, with the grant PUBLIC and no parent; and the
  document stored under its id when the call returns is that page
  (\<^verbatim>\<open>descendantCount\<close> apart).
\<close>

theorem create_top_page_forces_public:
  assumes "isV5Compatible env" and "isTopPage (xss_process env path0)"
    and "applyScope_sets_grant env"
  shows "create env path0 body usr (options\<lparr>opt_grant := requested\<rparr>) s
           = create env path0 body usr options s
         \<and> (\<forall>saved s'. create env path0 body usr options s = Some (Returned saved, s')
               \<longrightarrow> path saved = xss_process env path0 \<and> isTopPage (path saved)
                   \<and> grant saved = Some GRANT_PUBLIC \<and> parent saved = None
                   \<and> isEmpty saved = Some False \<and> status saved = STATUS_PUBLISHED
                   \<and> revision saved = Some body
                   \<and> creator saved = Some usr \<and> lastUpdateUser saved = Some usr
                   \<and> stored_as s' saved)"
proof -
  have "create env path0 body usr (options\<lparr>opt_grant := requested\<rparr>) s
          = create env path0 body usr options s"
    using assms(1,2) unfolding create_def Let_def by (simp cong: if_cong)
  moreover have "\<forall>saved s'. create env path0 body usr options s = Some (Returned saved, s')
               \<longrightarrow> path saved = xss_process env path0 \<and> isTopPage (path saved)
                   \<and> grant saved = Some GRANT_PUBLIC \<and> parent saved = None
                   \<and> isEmpty saved = Some False \<and> status saved = STATUS_PUBLISHED
                   \<and> revision saved = Some body
                   \<and> creator saved = Some usr \<and> lastUpdateUser saved = Some usr
                   \<and> stored_as s' saved"
    using create_top_page_stored [OF assms, of body usr options s] assms(2)
    by (simp add: io_post_def)
  ultimately show ?thesis by blast
qed



definition io_returns_with :: "'a io \<Rightarrow> db \<Rightarrow> ('a \<Rightarrow> db \<Rightarrow> bool) \<Rightarrow> bool" where
  "io_returns_with m s Q = (case m s of Some (Returned r, s') \<Rightarrow> Q r s' | _ \<Rightarrow> False)"

lemma io_returns_withD:
  assumes "io_returns_with m s Q"
  shows "\<exists>r s'. m s = Some (Returned r, s') \<and> Q r s'"
proof (cases "m s")
  case None
  with assms show ?thesis by (simp add: io_returns_with_def)
next
  case (Some y)
  obtain x t where y: "y = (x, t)" by (cases y)
  show ?thesis
  proof (cases x)
    case (Returned r)
    with assms Some y show ?thesis by (simp add: io_returns_with_def)
  next
    case (Threw e)
    with assms Some y show ?thesis by (simp add: io_returns_with_def)
  qed
qed

definition empty_db :: db where
  "empty_db = \<lparr>pages = [], redirects = [], operations = [], next_id = 1\<rparr>"

lemma example_applyScope_sets_grant: "applyScope_sets_grant example_env"
  by (auto simp: applyScope_sets_grant_def example_env_def example_applyScope_def js_or_def
        split: option.splits)

theorem create_top_page_forces_public_witness:
  "isV5Compatible example_env \<and> isTopPage (xss_process example_env ''/'')
   \<and> applyScope_sets_grant example_env
   \<and> (\<exists>saved s'.
         create example_env ''/'' ''body'' 7
           \<lparr>opt_grant = Some GRANT_RESTRICTED, opt_grantUserGroupId = None\<rparr> empty_db
           = Some (Returned saved, s')
         \<and> path saved = ''/'' \<and> grant saved = Some GRANT_PUBLIC \<and> parent saved = None
         \<and> isEmpty saved = Some False \<and> status saved = STATUS_PUBLISHED
         \<and> revision saved = Some ''body''
         \<and> creator saved = Some 7 \<and> lastUpdateUser saved = Some 7
         \<and> stored_as s' saved
         \<and> pages s' = [saved])"
proof -
  have v5: "isV5Compatible example_env" by (simp add: example_env_def)
  have top: "isTopPage (xss_process example_env ''/'')"
    by (simp add: example_env_def isTopPage_def)
  have x: "xss_process example_env ''/'' = ''/''" by (simp add: example_env_def)
  have "io_returns_with (create example_env ''/'' ''body'' 7
           \<lparr>opt_grant = Some GRANT_RESTRICTED, opt_grantUserGroupId = None\<rparr>) empty_db
          (\<lambda>saved s'. pages s' = [saved])"
    by code_simp
  from io_returns_withD [OF this] obtain saved s' where run:
    "create example_env ''/'' ''body'' 7
       \<lparr>opt_grant = Some GRANT_RESTRICTED, opt_grantUserGroupId = None\<rparr> empty_db
     = Some (Returned saved, s')" and only: "pages s' = [saved]"
    by blast
  from create_top_page_forces_public [OF v5 top example_applyScope_sets_grant,
         where body = "''body''" and usr = 7 and s = empty_db and requested = "Some GRANT_RESTRICTED"
           and options = "\<lparr>opt_grant = Some GRANT_RESTRICTED, opt_grantUserGroupId = None\<rparr>"]
       run only v5 top example_applyScope_sets_grant x
  show ?thesis by simp
qed

section \<open>The soft delete of a page that has children\<close>

definition trashed_a :: page where
  "trashed_a = page_a\<lparr>path := ''/trash/a'', status := STATUS_DELETED, parent := None,
                      descendantCount := 0, deleteUser := Some 7\<rparr>"

definition policy_env :: "undefined_policy \<Rightarrow> env" where
  "policy_env pol = example_env\<lparr>undefinedInUpdate := pol\<rparr>"

text \<open>
  C2. The non-recursive soft delete of \<^verbatim>\<open>/a\<close>, a non-empty, movable page outside the
  trash whose child is \<^verbatim>\<open>/a/b\<close>, in the v5 process. \<^verbatim>\<open>deletePage\<close> calls
  \<^verbatim>\<open>replaceTargetWithPage(page, null, true)\<close>: \<^verbatim>\<open>true\<close> is the page to replace with, so
  no empty page is created and the child is given the parent \<^verbatim>\<open>true._id\<close>. Whatever the
  driver does with that \<^verbatim>\<open>undefined\<close>, no page is left at \<^verbatim>\<open>/a\<close>: the child keeps
  pointing to the page now in the trash, or loses its parent, or the delete fails
  before the target is moved. The rest is as described: the target moves to the trash
  path with status deleted and no parent, the redirect is written, and the ancestor
  loses one descendant. \<^verbatim>\<open>deleteCompletely\<close>, which calls \<^verbatim>\<open>replaceTargetWithPage(page)\<close>,
  does put the child under a new empty page at \<^verbatim>\<open>/a\<close>.
\<close>

theorem deletePage_leaves_no_placeholder:
  "page_exists tree_db (\<lambda>q. parent q = Some (page_id page_a))
   \<and> deletePage (policy_env OmitsKey) page_a 7 False tree_db
       = Some (Returned (Some trashed_a),
               \<lparr>pages = [page_root\<lparr>descendantCount := 1\<rparr>, trashed_a, page_a_b],
                redirects = [\<lparr>fromPath = ''/a'', toPath = ''/trash/a''\<rparr>],
                operations = [], next_id = 4\<rparr>)
   \<and> deletePage (policy_env WritesNull) page_a 7 False tree_db
       = Some (Returned (Some trashed_a),
               \<lparr>pages = [page_root\<lparr>descendantCount := 1\<rparr>, trashed_a,
                         page_a_b\<lparr>parent := None\<rparr>],
                redirects = [\<lparr>fromPath = ''/a'', toPath = ''/trash/a''\<rparr>],
                operations = [], next_id = 4\<rparr>)
   \<and> deletePage (policy_env RejectsUpdate) page_a 7 False tree_db
       = Some (Threw (External ''bulkWrite''), tree_db)
   \<and> deleteCompletely example_env page_a 7 False tree_db
       = Some (Returned (),
               \<lparr>pages = [page_root\<lparr>descendantCount := 1\<rparr>, page_a_b\<lparr>parent := Some 4\<rparr>,
                         stored_page 4 ''/a'' (Some 1) True 1],
                redirects = [], operations = [], next_id = 5\<rparr>)"
  by code_simp

section \<open>The iterations of the migration\<close>











text \<open>
  The migration of \<^verbatim>\<open>/n\<close> by user 7, who is in no group: the filter arguments
  \<^verbatim>\<open>normalizeParentRecursively\<close> computes from the path list \<^verbatim>\<open>['/n']\<close>. The first
  database holds the root and the orphan \<^verbatim>\<open>/n/a\<close>; the second are its states after
  the first and after the second iteration; the third holds 1001 orphans.
\<close>

definition n_pathOrRegExps :: "path_or_regexp list" where
  "n_pathOrRegExps = [PrefixRegExp ''/n/'', PathString ''/n'']"

definition n_publicPaths :: "string list" where
  "n_publicPaths = [''/'']"

definition user_grantFilter :: "page \<Rightarrow> bool" where
  "user_grantFilter = generateGrantCondition (Some 7) (Some []) False False False"







lemma normalizeParentRecursively_n:
  "normalizeParentRecursively example_env [''/n''] (Some 7) s
   = normalizeParentRecursively_loop example_env n_pathOrRegExps n_publicPaths user_grantFilter
       (Some 7) 0 s"
  by (simp add: normalizeParentRecursively_def Let_def example_env_def n_pathOrRegExps_def
        n_publicPaths_def user_grantFilter_def userGroupsOf_def example_addTrailingSlash_def
        isTopPage_def dirname_def)













section \<open>The tree invariant\<close>

text \<open>
  The invariant of the collection: the ids are unique and below the next id to be
  issued, and every page with the grant RESTRICTED has no parent.
\<close>

definition root_if_restricted :: "page \<Rightarrow> bool" where
  "root_if_restricted p = (if grant p = Some GRANT_RESTRICTED then parent p = None else True)"

definition tree_inv :: "db \<Rightarrow> bool" where
  "tree_inv s =
     (distinct (map page_id (pages s))
      \<and> list_all (\<lambda>p. page_id p < next_id s \<and> root_if_restricted p) (pages s))"

text \<open>
  \<^verbatim>\<open>io_all m s Q\<close>: however the operation \<^verbatim>\<open>m\<close> ends from the database \<^verbatim>\<open>s\<close>, with a
  value or with an error, the outcome and the database it leaves satisfy \<^verbatim>\<open>Q\<close>.
\<close>

definition io_all :: "'a io \<Rightarrow> db \<Rightarrow> ('a result \<Rightarrow> db \<Rightarrow> bool) \<Rightarrow> bool" where
  "io_all m s Q = (\<forall>r s'. m s = Some (r, s') \<longrightarrow> Q r s')"









lemma io_all_weaken:
  "io_all m s Q' \<Longrightarrow> (\<And>r s'. Q' r s' \<Longrightarrow> Q r s') \<Longrightarrow> io_all m s Q"
  by (simp add: io_all_def)


text \<open>The writes that keep the invariant.\<close>

lemma tree_inv_redirects [simp]: "tree_inv (s\<lparr>redirects := r\<rparr>) = tree_inv s"
  by (simp add: tree_inv_def)

lemma tree_inv_operations [simp]: "tree_inv (s\<lparr>operations := r\<rparr>) = tree_inv s"
  by (simp add: tree_inv_def)











lemma next_id_save [simp]: "next_id (save p s) = next_id s"
  by (simp add: save_def updateOne_def)

lemma next_id_updateOne [simp]: "next_id (updateOne P f s) = next_id s"
  by (simp add: updateOne_def)

lemma next_id_updateMany [simp]: "next_id (updateMany P f s) = next_id s"
  by (simp add: updateMany_def)

lemma next_id_deleteMany [simp]: "next_id (deleteMany P s) = next_id s"
  by (simp add: deleteMany_def)

lemma next_id_deleteOne [simp]: "next_id (deleteOne P s) = next_id s"
  by (simp add: deleteOne_def)















lemma root_if_restricted_public [simp]:
  "grant p = Some GRANT_PUBLIC \<Longrightarrow> root_if_restricted p"
  by (simp add: root_if_restricted_def GRANT_PUBLIC_def GRANT_RESTRICTED_def)





















lemma page_id_new_Page [simp]: "page_id (new_Page i) = i"
  by (simp add: new_Page_def)

lemma root_if_restricted_revision [simp]:
  "root_if_restricted (p\<lparr>revision := r, lastUpdateUser := u\<rparr>) = root_if_restricted p"
  by (simp add: root_if_restricted_def)





section \<open>The children of a page that becomes restricted\<close>








lemma js_or_given_restricted [simp]: "js_or (Some GRANT_RESTRICTED) b = Some GRANT_RESTRICTED"
  by (simp add: js_or_def GRANT_RESTRICTED_def)



section \<open>Restricted pages are roots\<close>





end
